theory Spec2Isabelle
  imports Main "HOL-Library.AList"
begin

section \<open>JavaScript values and objects\<close>

text \<open>
  The onboarding records are plain JavaScript objects whose properties hold primitive
  values. A property may hold a value of any primitive type, since \<^verbatim>\<open>Object.assign\<close>
  copies whatever the caller supplies. Numbers are modelled as integers, and strings as
  the bytes of their UTF-8 encoding. An own property shadows a method of the same name
  (see \<open>call_toJSON\<close>). Assigning to the name \<^verbatim>\<open>__proto__\<close> replaces the prototype of an
  object instead of writing a property; this is modelled where a plain object is filled
  (\<open>collectStatesData\<close>) and excluded by hypothesis where records are assigned to.
\<close>

datatype jsval = JUndefined | JNull | JBool bool | JNum int | JStr string

text \<open>
  An object is the list of its own properties in creation order. Reading a property that
  the object lacks gives \<^verbatim>\<open>undefined\<close>; writing a property replaces its value in place or
  appends a new property.
\<close>

type_synonym jsobj = "(string \<times> jsval) list"

definition getProp :: "jsobj \<Rightarrow> string \<Rightarrow> jsval" where
  "getProp obj k = (case map_of obj k of None \<Rightarrow> JUndefined | Some v \<Rightarrow> v)"

definition setProp :: "string \<Rightarrow> jsval \<Rightarrow> jsobj \<Rightarrow> jsobj" where
  "setProp k v obj = AList.update k v obj"

text \<open>\<^verbatim>\<open>Object.assign(target, source)\<close>: every own property of the source is written to the
  target, in the order of the source.\<close>

definition Object_assign :: "jsobj \<Rightarrow> jsobj \<Rightarrow> jsobj" where
  "Object_assign target source = fold (\<lambda>(k, v). setProp k v) source target"

text \<open>The conversion behind \<^verbatim>\<open>!x\<close> and \<^verbatim>\<open>if (x)\<close>.\<close>

fun ToBoolean :: "jsval \<Rightarrow> bool" where
  "ToBoolean JUndefined = False"
| "ToBoolean JNull = False"
| "ToBoolean (JBool b) = b"
| "ToBoolean (JNum n) = (n \<noteq> 0)"
| "ToBoolean (JStr s) = (s \<noteq> [])"

definition hasOwnProperty :: "jsobj \<Rightarrow> string \<Rightarrow> bool" where
  "hasOwnProperty obj k \<longleftrightarrow> map_of obj k \<noteq> None"

text \<open>The errors that the operations raise.\<close>

datatype error = MkdirFailed | ReadFailed | WriteFailed | TypeError

section \<open>UserState\<close>

text \<open>
  The constructor reads the clock once (\<^verbatim>\<open>new Date().toISOString()\<close>); the string it
  obtains is the parameter \<open>stamp\<close>.
\<close>

definition UserState_new :: "string \<Rightarrow> jsval \<Rightarrow> jsval \<Rightarrow> jsobj" where
  "UserState_new stamp userId guildId =
     [(''userId'', userId),
      (''guildId'', guildId),
      (''onboardingStep'', JStr ''welcome''),
      (''rulesAcknowledged'', JBool False),
      (''rulesAcknowledgedAt'', JNull),
      (''githubConnected'', JBool False),
      (''githubUsername'', JNull),
      (''tutorialCompleted'', JBool False),
      (''onboardingStartedAt'', JStr stamp),
      (''onboardingCompletedAt'', JNull),
      (''remindersSent'', JNum 0)]"

definition fromJSON :: "string \<Rightarrow> jsobj \<Rightarrow> jsobj" where
  "fromJSON stamp data =
     Object_assign (UserState_new stamp (getProp data ''userId'') (getProp data ''guildId'')) data"

definition toJSON :: "jsobj \<Rightarrow> jsobj" where
  "toJSON this =
     [(''userId'', getProp this ''userId''),
      (''guildId'', getProp this ''guildId''),
      (''onboardingStep'', getProp this ''onboardingStep''),
      (''rulesAcknowledged'', getProp this ''rulesAcknowledged''),
      (''rulesAcknowledgedAt'', getProp this ''rulesAcknowledgedAt''),
      (''githubConnected'', getProp this ''githubConnected''),
      (''githubUsername'', getProp this ''githubUsername''),
      (''tutorialCompleted'', getProp this ''tutorialCompleted''),
      (''onboardingStartedAt'', getProp this ''onboardingStartedAt''),
      (''onboardingCompletedAt'', getProp this ''onboardingCompletedAt''),
      (''remindersSent'', getProp this ''remindersSent'')]"

text \<open>
  The call \<^verbatim>\<open>state.toJSON()\<close> looks the name up on the object first. An own property
  \<open>toJSON\<close>, which \<^verbatim>\<open>Object.assign\<close> writes when the data or the patch has one, shadows
  the method; it holds a primitive value, and calling it raises a \<^verbatim>\<open>TypeError\<close>.
\<close>

definition call_toJSON :: "jsobj \<Rightarrow> error + jsobj" where
  "call_toJSON state =
     (if hasOwnProperty state ''toJSON'' then Inl TypeError else Inr (toJSON state))"

text \<open>
  \<^verbatim>\<open>completeStep(step)\<close>: a \<^verbatim>\<open>switch\<close> on the argument with strict equality and no
  \<^verbatim>\<open>default\<close> branch. The cases \<^verbatim>\<open>"rules"\<close> and \<^verbatim>\<open>"tutorial"\<close> read the clock.
\<close>

definition completeStep :: "string \<Rightarrow> jsval \<Rightarrow> jsobj \<Rightarrow> jsobj" where
  "completeStep stamp step this =
     (if step = JStr ''rules'' then
        setProp ''onboardingStep'' (JStr ''github'')
          (setProp ''rulesAcknowledgedAt'' (JStr stamp)
            (setProp ''rulesAcknowledged'' (JBool True) this))
      else if step = JStr ''github'' then
        setProp ''onboardingStep'' (JStr ''tutorial'') this
      else if step = JStr ''tutorial'' then
        setProp ''onboardingCompletedAt'' (JStr stamp)
          (setProp ''onboardingStep'' (JStr ''complete'')
            (setProp ''tutorialCompleted'' (JBool True) this))
      else this)"

definition isComplete :: "jsobj \<Rightarrow> bool" where
  "isComplete this \<longleftrightarrow> getProp this ''onboardingStep'' = JStr ''complete''"

section \<open>Conversions supplied by the platform\<close>

text \<open>
  Two conversions of the JavaScript runtime are taken as parameters: the reading of a
  string as a number (\<^verbatim>\<open>StringToNumber\<close>) and the parsing of a date string
  (\<^verbatim>\<open>Date.parse\<close>). Both give \<open>None\<close> for \<^verbatim>\<open>NaN\<close>.
\<close>

record platform =
  StringToNumber :: "string \<Rightarrow> int option"
  Date_parse :: "string \<Rightarrow> int option"

fun ToNumber :: "platform \<Rightarrow> jsval \<Rightarrow> int option" where
  "ToNumber pf JUndefined = None"
| "ToNumber pf JNull = Some 0"
| "ToNumber pf (JBool b) = Some (if b then 1 else 0)"
| "ToNumber pf (JNum n) = Some n"
| "ToNumber pf (JStr s) = StringToNumber pf s"

text \<open>The comparisons \<^verbatim>\<open><\<close> and \<^verbatim>\<open>>=\<close> on numbers: false as soon as one side is \<^verbatim>\<open>NaN\<close>.\<close>

definition js_less :: "int option \<Rightarrow> int option \<Rightarrow> bool" where
  "js_less a b = (case (a, b) of (Some x, Some y) \<Rightarrow> x < y | _ \<Rightarrow> False)"

definition js_greater_eq :: "int option \<Rightarrow> int option \<Rightarrow> bool" where
  "js_greater_eq a b = (case (a, b) of (Some x, Some y) \<Rightarrow> y \<le> x | _ \<Rightarrow> False)"

definition js_minus :: "int option \<Rightarrow> int option \<Rightarrow> int option" where
  "js_minus a b = (case (a, b) of (Some x, Some y) \<Rightarrow> Some (x - y) | _ \<Rightarrow> None)"

text \<open>
  \<^verbatim>\<open>new Date(v)\<close> as its time value in milliseconds: a string is parsed, any other value
  is converted to a number and clipped to the range of valid dates.
\<close>

definition Date_new :: "platform \<Rightarrow> jsval \<Rightarrow> int option" where
  "Date_new pf v =
     (case v of
        JStr s \<Rightarrow> Date_parse pf s
      | _ \<Rightarrow> (case ToNumber pf v of
                None \<Rightarrow> None
              | Some t \<Rightarrow> if \<bar>t\<bar> \<le> 8640000000000000 then Some t else None))"

section \<open>UserStateManager\<close>

text \<open>
  The manager holds a \<^verbatim>\<open>Map\<close> from composite keys to records, in insertion order, and
  the \<open>initialized\<close> flag. The outside world is the content of the JSON file together with
  whether creating the directory and writing the file succeed. \<open>Unreadable\<close> stands for
  every state of the file on which reading or parsing raises an error other than
  \<^verbatim>\<open>ENOENT\<close>; a readable file holds an object whose values are objects. A write that
  fails is taken to leave the file as it was. The order that JavaScript gives to property
  names that are array indices is not modelled.
\<close>

datatype fcontent = Absent | Unreadable | Stored "(string \<times> jsobj) list"

record world =
  userStatesFile :: fcontent
  mkdir_ok :: bool
  write_ok :: bool

record UserStateManager =
  userStates :: "(string \<times> jsobj) list"
  initialized :: bool

definition Map_get :: "(string \<times> jsobj) list \<Rightarrow> string \<Rightarrow> jsobj option" where
  "Map_get entries key = map_of entries key"

definition Map_set :: "string \<Rightarrow> jsobj \<Rightarrow> (string \<times> jsobj) list \<Rightarrow> (string \<times> jsobj) list" where
  "Map_set key v entries = AList.update key v entries"

definition Map_delete :: "string \<Rightarrow> (string \<times> jsobj) list \<Rightarrow> (string \<times> jsobj) list" where
  "Map_delete key entries = AList.delete key entries"

text \<open>
  Every operation that constructs a record reads the clock; \<open>stamp\<close> is the reading,
  taken as the same throughout one call.
\<close>

definition loadUserStates ::
  "string \<Rightarrow> world \<Rightarrow> UserStateManager \<Rightarrow> (error + unit) \<times> UserStateManager" where
  "loadUserStates stamp w m =
     (case userStatesFile w of
        Stored statesData \<Rightarrow>
          (Inr (),
           m\<lparr>userStates :=
               fold (\<lambda>(key, stateData). Map_set key (fromJSON stamp stateData)) statesData []\<rparr>)
      | Absent \<Rightarrow> (Inr (), m\<lparr>userStates := []\<rparr>)
      | Unreadable \<Rightarrow> (Inl ReadFailed, m))"

definition initialize ::
  "string \<Rightarrow> world \<Rightarrow> UserStateManager \<Rightarrow> (error + unit) \<times> UserStateManager" where
  "initialize stamp w m =
     (if initialized m then (Inr (), m)
      else if \<not> mkdir_ok w then (Inl MkdirFailed, m)
      else (case loadUserStates stamp w m of
              (Inl e, m') \<Rightarrow> (Inl e, m')
            | (Inr u, m') \<Rightarrow> (Inr (), m'\<lparr>initialized := True\<rparr>)))"

text \<open>\<^verbatim>\<open>JSON.stringify\<close> leaves out the properties whose value is \<^verbatim>\<open>undefined\<close>.\<close>

definition JSON_stringify :: "jsobj \<Rightarrow> jsobj" where
  "JSON_stringify obj = filter (\<lambda>(k, v). v \<noteq> JUndefined) obj"

text \<open>
  The loop of \<open>saveUserStates\<close>: \<^verbatim>\<open>statesData[key] = state.toJSON()\<close> for every entry of
  the map, in order. The first call that raises ends the loop. On the plain object
  \<^verbatim>\<open>statesData\<close> the key \<^verbatim>\<open>__proto__\<close> sets the prototype and adds no property.
\<close>

fun collectStatesData ::
  "(string \<times> jsobj) list \<Rightarrow> (string \<times> jsobj) list \<Rightarrow> error + (string \<times> jsobj) list" where
  "collectStatesData [] statesData = Inr statesData"
| "collectStatesData ((key, state) # rest) statesData =
     (case call_toJSON state of
        Inl e \<Rightarrow> Inl e
      | Inr data \<Rightarrow>
          collectStatesData rest
            (if key = ''__proto__'' then statesData else AList.update key data statesData))"

text \<open>An error of the loop is raised again before anything is written.\<close>

definition saveUserStates :: "world \<Rightarrow> UserStateManager \<Rightarrow> (error + unit) \<times> world" where
  "saveUserStates w m =
     (case collectStatesData (userStates m) [] of
        Inl e \<Rightarrow> (Inl e, w)
      | Inr statesData \<Rightarrow>
          if write_ok w
          then (Inr (),
                w\<lparr>userStatesFile :=
                    Stored (map (\<lambda>(key, data). (key, JSON_stringify data)) statesData)\<rparr>)
          else (Inl WriteFailed, w))"

definition getUserKey :: "string \<Rightarrow> string \<Rightarrow> string" where
  "getUserKey userId guildId = guildId @ ''-'' @ userId"

text \<open>The result \<open>None\<close> of \<open>getUserState\<close> is \<^verbatim>\<open>null\<close>.\<close>

definition getUserState ::
  "string \<Rightarrow> string \<Rightarrow> string \<Rightarrow> world \<Rightarrow> UserStateManager
     \<Rightarrow> (error + jsobj option) \<times> UserStateManager" where
  "getUserState stamp userId guildId w m =
     (case initialize stamp w m of
        (Inl e, m') \<Rightarrow> (Inl e, m')
      | (Inr u, m') \<Rightarrow> (Inr (Map_get (userStates m') (getUserKey userId guildId)), m'))"

text \<open>
  \<open>updateUserState\<close> fetches or creates the record, assigns the updates to it in place
  (the record in the map is the one assigned to), saves, and returns the record. The
  in-memory changes stay when saving fails.
\<close>

definition updateUserState ::
  "string \<Rightarrow> string \<Rightarrow> string \<Rightarrow> jsobj \<Rightarrow> world \<Rightarrow> UserStateManager
     \<Rightarrow> (error + jsobj) \<times> UserStateManager \<times> world" where
  "updateUserState stamp userId guildId updates w m =
     (case initialize stamp w m of
        (Inl e, m') \<Rightarrow> (Inl e, m', w)
      | (Inr u, m1) \<Rightarrow>
          let key = getUserKey userId guildId;
              (state, entries) =
                (case Map_get (userStates m1) key of
                   None \<Rightarrow>
                     (UserState_new stamp (JStr userId) (JStr guildId),
                      Map_set key (UserState_new stamp (JStr userId) (JStr guildId))
                        (userStates m1))
                 | Some state \<Rightarrow> (state, userStates m1));
              state' = Object_assign state updates;
              m2 = m1\<lparr>userStates := Map_set key state' entries\<rparr>
          in (case saveUserStates w m2 of
                (Inl e, w') \<Rightarrow> (Inl e, m2, w')
              | (Inr u, w') \<Rightarrow> (Inr state', m2, w')))"

definition deleteUserState ::
  "string \<Rightarrow> string \<Rightarrow> string \<Rightarrow> world \<Rightarrow> UserStateManager
     \<Rightarrow> (error + unit) \<times> UserStateManager \<times> world" where
  "deleteUserState stamp userId guildId w m =
     (case initialize stamp w m of
        (Inl e, m') \<Rightarrow> (Inl e, m', w)
      | (Inr u, m1) \<Rightarrow>
          let key = getUserKey userId guildId;
              m2 = m1\<lparr>userStates := Map_delete key (userStates m1)\<rparr>
          in (case saveUserStates w m2 of (r, w') \<Rightarrow> (r, m2, w')))"

text \<open>
  \<open>getUsersNeedingReminders\<close>: \<open>now\<close> is the time value of \<^verbatim>\<open>new Date()\<close> in milliseconds.
  The argument \<open>maxReminders\<close> is a number; \<open>None\<close> is the omitted argument, which
  defaults to 3.
\<close>

definition getUsersNeedingReminders ::
  "platform \<Rightarrow> string \<Rightarrow> int \<Rightarrow> string \<Rightarrow> int option \<Rightarrow> world \<Rightarrow> UserStateManager
     \<Rightarrow> (error + jsobj list) \<times> UserStateManager" where
  "getUsersNeedingReminders pf stamp now guildId maxRemindersArg w m =
     (case initialize stamp w m of
        (Inl e, m') \<Rightarrow> (Inl e, m')
      | (Inr u, m') \<Rightarrow>
          let maxReminders = (case maxRemindersArg of None \<Rightarrow> 3 | Some n \<Rightarrow> n);
              reminderThreshold = 24 * 60 * 60 * 1000
          in (Inr (filter
                (\<lambda>state.
                   getProp state ''guildId'' = JStr guildId
                   \<and> \<not> ToBoolean (getProp state ''rulesAcknowledged'')
                   \<and> js_less (ToNumber pf (getProp state ''remindersSent'')) (Some maxReminders)
                   \<and> js_greater_eq
                       (js_minus (Some now) (Date_new pf (getProp state ''onboardingStartedAt'')))
                       (Some reminderThreshold))
                (map snd (userStates m'))), m'))"

text \<open>
  The reminder condition in the words of the specification: the record's guild is the
  one asked for, \<open>rulesAcknowledged\<close> is false, \<open>remindersSent\<close> is a number strictly below
  the maximum, and at least 24 hours lie between \<open>onboardingStartedAt\<close> and now.
\<close>

definition spec_needs_reminder :: "platform \<Rightarrow> int \<Rightarrow> string \<Rightarrow> int \<Rightarrow> jsobj \<Rightarrow> bool" where
  "spec_needs_reminder pf now guildId maxReminders r \<longleftrightarrow>
     getProp r ''guildId'' = JStr guildId
     \<and> getProp r ''rulesAcknowledged'' = JBool False
     \<and> (case getProp r ''remindersSent'' of JNum n \<Rightarrow> n < maxReminders | _ \<Rightarrow> False)
     \<and> (case Date_new pf (getProp r ''onboardingStartedAt'') of
          Some startedAt \<Rightarrow> 86400000 \<le> now - startedAt
        | None \<Rightarrow> False)"

text \<open>A record follows the schema when \<open>rulesAcknowledged\<close> holds a boolean and
  \<open>remindersSent\<close> a number.\<close>

definition schema_typed :: "jsobj \<Rightarrow> bool" where
  "schema_typed r \<longleftrightarrow>
     (case getProp r ''rulesAcknowledged'' of JBool b \<Rightarrow> True | _ \<Rightarrow> False)
     \<and> (case getProp r ''remindersSent'' of JNum n \<Rightarrow> True | _ \<Rightarrow> False)"

section \<open>OnboardingConfig\<close>

text \<open>The two default texts, byte for byte as the source file spells them.\<close>

definition getDefaultWelcomeMessage :: string where
  "getDefaultWelcomeMessage =
     [CHR 0xC2, CHR 0xA1]
     @ ''Bienvenido/a al servidor! ''
     @ [CHR 0xF0, CHR 0x9F, CHR 0x91, CHR 0x8B, CHR 0x0A]
     @ [CHR 0x0A]
     @ [CHR 0xC2, CHR 0xA1]
     @ ''Nos alegra tenerte aqu''
     @ [CHR 0xC3, CHR 0xAD]
     @ ''! Para comenzar, necesitas:''
     @ [CHR 0x0A]
     @ [CHR 0x0A]
     @ ''1. ''
     @ [CHR 0xF0, CHR 0x9F, CHR 0x93, CHR 0x8B]
     @ '' Leer y aceptar las reglas del servidor''
     @ [CHR 0x0A]
     @ ''2. ''
     @ [CHR 0xF0, CHR 0x9F, CHR 0x94, CHR 0x97]
     @ '' Conectar tu cuenta de GitHub (opcional)''
     @ [CHR 0x0A]
     @ ''3. ''
     @ [CHR 0xF0, CHR 0x9F, CHR 0x93, CHR 0x9A]
     @ '' Completar un breve tutorial''
     @ [CHR 0x0A]
     @ [CHR 0x0A]
     @ ''Usa ''
     @ [CHR 0x60]
     @ ''/help''
     @ [CHR 0x60]
     @ '' para ver todos los comandos disponibles.''
     @ [CHR 0x0A]
     @ [CHR 0xC2, CHR 0xA1]
     @ ''Esperamos que disfrutes tu tiempo aqu''
     @ [CHR 0xC3, CHR 0xAD]
     @ ''!''"

definition getDefaultRulesContent :: string where
  "getDefaultRulesContent =
     [CHR 0xF0, CHR 0x9F, CHR 0x93, CHR 0x8B]
     @ '' **Reglas del Servidor**''
     @ [CHR 0x0A]
     @ [CHR 0x0A]
     @ ''**1. Respeto y Cortes''
     @ [CHR 0xC3, CHR 0xAD]
     @ ''a**''
     @ [CHR 0x0A]
     @ ''- Trata a todos los miembros con respeto''
     @ [CHR 0x0A]
     @ ''- No se toleran insultos, acoso o discriminaci''
     @ [CHR 0xC3, CHR 0xB3]
     @ ''n''
     @ [CHR 0x0A]
     @ [CHR 0x0A]
     @ ''**2. Contenido Apropiado**''
     @ [CHR 0x0A]
     @ ''- Mant''
     @ [CHR 0xC3, CHR 0xA9]
     @ ''n las conversaciones apropiadas para todos''
     @ [CHR 0x0A]
     @ ''- No spam ni contenido irrelevante''
     @ [CHR 0x0A]
     @ [CHR 0x0A]
     @ ''**3. Canales Tem''
     @ [CHR 0xC3, CHR 0xA1]
     @ ''ticos**''
     @ [CHR 0x0A]
     @ ''- Usa los canales apropiados para cada tema''
     @ [CHR 0x0A]
     @ ''- Mant''
     @ [CHR 0xC3, CHR 0xA9]
     @ ''n las discusiones organizadas''
     @ [CHR 0x0A]
     @ [CHR 0x0A]
     @ ''**4. C''
     @ [CHR 0xC3, CHR 0xB3]
     @ ''digo de Conducta para Desarrolladores**''
     @ [CHR 0x0A]
     @ ''- Comparte c''
     @ [CHR 0xC3, CHR 0xB3]
     @ ''digo de manera constructiva''
     @ [CHR 0x0A]
     @ ''- Ayuda a otros desarrolladores cuando sea posible''
     @ [CHR 0x0A]
     @ ''- Respeta las diferentes tecnolog''
     @ [CHR 0xC3, CHR 0xAD]
     @ ''as y enfoques''
     @ [CHR 0x0A]
     @ [CHR 0x0A]
     @ ''**5. Privacidad y Seguridad**''
     @ [CHR 0x0A]
     @ ''- No compartas informaci''
     @ [CHR 0xC3, CHR 0xB3]
     @ ''n personal''
     @ [CHR 0x0A]
     @ ''- No publiques credenciales o tokens''
     @ [CHR 0x0A]
     @ [CHR 0x0A]
     @ ''Al hacer clic en ''
     @ [CHR 0x22]
     @ ''Acepto''
     @ [CHR 0x22]
     @ '', confirmas que has le''
     @ [CHR 0xC3, CHR 0xAD]
     @ ''do y aceptas estas reglas.''"

definition OnboardingConfig_new :: "jsval \<Rightarrow> jsobj" where
  "OnboardingConfig_new guildId =
     [(''guildId'', guildId),
      (''welcomeChannelId'', JNull),
      (''rulesChannelId'', JNull),
      (''welcomeMessage'', JStr getDefaultWelcomeMessage),
      (''rulesContent'', JStr getDefaultRulesContent),
      (''githubIntegrationEnabled'', JBool True),
      (''tutorialEnabled'', JBool True),
      (''reminderIntervalHours'', JNum 24),
      (''maxReminders'', JNum 3)]"

definition OnboardingConfig_fromJSON :: "jsobj \<Rightarrow> jsobj" where
  "OnboardingConfig_fromJSON data =
     Object_assign (OnboardingConfig_new (getProp data ''guildId'')) data"

definition OnboardingConfig_toJSON :: "jsobj \<Rightarrow> jsobj" where
  "OnboardingConfig_toJSON this =
     [(''guildId'', getProp this ''guildId''),
      (''welcomeChannelId'', getProp this ''welcomeChannelId''),
      (''rulesChannelId'', getProp this ''rulesChannelId''),
      (''welcomeMessage'', getProp this ''welcomeMessage''),
      (''rulesContent'', getProp this ''rulesContent''),
      (''githubIntegrationEnabled'', getProp this ''githubIntegrationEnabled''),
      (''tutorialEnabled'', getProp this ''tutorialEnabled''),
      (''reminderIntervalHours'', getProp this ''reminderIntervalHours''),
      (''maxReminders'', getProp this ''maxReminders'')]"

text \<open>The call \<^verbatim>\<open>config.toJSON()\<close>, with the same lookup.\<close>

definition OnboardingConfig_call_toJSON :: "jsobj \<Rightarrow> error + jsobj" where
  "OnboardingConfig_call_toJSON config =
     (if hasOwnProperty config ''toJSON'' then Inl TypeError
      else Inr (OnboardingConfig_toJSON config))"

definition update :: "jsobj \<Rightarrow> jsobj \<Rightarrow> jsobj" where
  "update this updates = Object_assign this updates"

text \<open>
  \<^verbatim>\<open>String.prototype.trim\<close> removes white space and line terminators from both ends. On
  UTF-8 bytes these are the single bytes TAB, LF, VT, FF, CR and SP, the two bytes of
  U+00A0, and the three bytes of U+1680, U+2000 to U+200A, U+2028, U+2029, U+202F, U+205F,
  U+3000 and U+FEFF.
\<close>

definition ws1 :: "char \<Rightarrow> bool" where
  "ws1 a \<longleftrightarrow> a = CHR 0x09 \<or> a = CHR 0x0A \<or> a = CHR 0x0B \<or> a = CHR 0x0C \<or> a = CHR 0x0D
              \<or> a = CHR 0x20"

definition ws2 :: "char \<Rightarrow> char \<Rightarrow> bool" where
  "ws2 a b \<longleftrightarrow> a = CHR 0xC2 \<and> b = CHR 0xA0"

definition ws3 :: "char \<Rightarrow> char \<Rightarrow> char \<Rightarrow> bool" where
  "ws3 a b c \<longleftrightarrow>
     a = CHR 0xE1 \<and> b = CHR 0x9A \<and> c = CHR 0x80
     \<or> a = CHR 0xE2 \<and> b = CHR 0x80
         \<and> (of_char c \<in> {0x80 .. 0x8A :: nat} \<or> c = CHR 0xA8 \<or> c = CHR 0xA9 \<or> c = CHR 0xAF)
     \<or> a = CHR 0xE2 \<and> b = CHR 0x81 \<and> c = CHR 0x9F
     \<or> a = CHR 0xE3 \<and> b = CHR 0x80 \<and> c = CHR 0x80
     \<or> a = CHR 0xEF \<and> b = CHR 0xBB \<and> c = CHR 0xBF"

fun trimStart :: "string \<Rightarrow> string" where
  "trimStart (a # b # c # s) =
     (if ws1 a then trimStart (b # c # s)
      else if ws2 a b then trimStart (c # s)
      else if ws3 a b c then trimStart s
      else a # b # c # s)"
| "trimStart [a, b] = (if ws1 a then trimStart [b] else if ws2 a b then [] else [a, b])"
| "trimStart [a] = (if ws1 a then [] else [a])"
| "trimStart [] = []"

text \<open>The same from the end, on the reversed bytes.\<close>

fun trimEndRev :: "string \<Rightarrow> string" where
  "trimEndRev (c # b # a # s) =
     (if ws1 c then trimEndRev (b # a # s)
      else if ws2 b c then trimEndRev (a # s)
      else if ws3 a b c then trimEndRev s
      else c # b # a # s)"
| "trimEndRev [c, b] = (if ws1 c then trimEndRev [b] else if ws2 b c then [] else [c, b])"
| "trimEndRev [c] = (if ws1 c then [] else [c])"
| "trimEndRev [] = []"

definition trimEnd :: "string \<Rightarrow> string" where
  "trimEnd s = rev (trimEndRev (rev s))"

definition trim :: "string \<Rightarrow> string" where
  "trim s = trimEnd (trimStart s)"

text \<open>
  \<^verbatim>\<open>!v || v.trim().length === 0\<close>: a value that is truthy and not a string has no
  \<^verbatim>\<open>trim\<close> method, and the call raises a \<^verbatim>\<open>TypeError\<close>.
\<close>

definition blank :: "jsval \<Rightarrow> error + bool" where
  "blank v =
     (if \<not> ToBoolean v then Inr True
      else (case v of JStr s \<Rightarrow> Inr (length (trim s) = 0) | _ \<Rightarrow> Inl TypeError))"

record validation =
  isValid :: bool
  errors :: "string list"

definition validate :: "platform \<Rightarrow> jsobj \<Rightarrow> error + validation" where
  "validate pf this =
     (let errors0 = [];
          errors1 = (if \<not> ToBoolean (getProp this ''guildId'')
                     then errors0 @ [''Guild ID es requerido''] else errors0);
          errors2 = (if js_less (ToNumber pf (getProp this ''reminderIntervalHours'')) (Some 1)
                        \<or> js_less (Some 168) (ToNumber pf (getProp this ''reminderIntervalHours''))
                     then errors1 @ [''Intervalo de recordatorios debe estar entre 1 y 168 horas'']
                     else errors1);
          errors3 = (if js_less (ToNumber pf (getProp this ''maxReminders'')) (Some 0)
                        \<or> js_less (Some 10) (ToNumber pf (getProp this ''maxReminders''))
                     then errors2 @ [''M''
                     @ [CHR 0xC3, CHR 0xA1]
                     @ ''ximo de recordatorios debe estar entre 0 y 10'']
                     else errors2)
      in (case blank (getProp this ''welcomeMessage'') of
            Inl e \<Rightarrow> Inl e
          | Inr blankWelcome \<Rightarrow>
              let errors4 = (if blankWelcome
                             then errors3 @ [''Mensaje de bienvenida no puede estar vac''
                     @ [CHR 0xC3, CHR 0xAD]
                     @ ''o'']
                             else errors3)
              in (case blank (getProp this ''rulesContent'') of
                    Inl e \<Rightarrow> Inl e
                  | Inr blankRules \<Rightarrow>
                      let errors5 = (if blankRules
                                     then errors4 @ [''Contenido de reglas no puede estar vac''
                     @ [CHR 0xC3, CHR 0xAD]
                     @ ''o'']
                                     else errors4)
                      in Inr \<lparr>isValid = (length errors5 = 0), errors = errors5\<rparr>)))"

text \<open>
  The five messages of \<open>validate\<close>, and the list the specification expects: one message
  for each violated rule, in the order guild, interval, maximum, welcome text, rules text.
\<close>

definition msg_guildId :: string where
  "msg_guildId = ''Guild ID es requerido''"

definition msg_reminderIntervalHours :: string where
  "msg_reminderIntervalHours = ''Intervalo de recordatorios debe estar entre 1 y 168 horas''"

definition msg_maxReminders :: string where
  "msg_maxReminders =
     ''M''
     @ [CHR 0xC3, CHR 0xA1]
     @ ''ximo de recordatorios debe estar entre 0 y 10''"

definition msg_welcomeMessage :: string where
  "msg_welcomeMessage =
     ''Mensaje de bienvenida no puede estar vac''
     @ [CHR 0xC3, CHR 0xAD]
     @ ''o''"

definition msg_rulesContent :: string where
  "msg_rulesContent =
     ''Contenido de reglas no puede estar vac''
     @ [CHR 0xC3, CHR 0xAD]
     @ ''o''"

definition spec_errors :: "jsval \<Rightarrow> int \<Rightarrow> int \<Rightarrow> string \<Rightarrow> string \<Rightarrow> string list" where
  "spec_errors guildId hours maxReminders welcomeMessage rulesContent =
     (if ToBoolean guildId then [] else [msg_guildId])
     @ (if 1 \<le> hours \<and> hours \<le> 168 then [] else [msg_reminderIntervalHours])
     @ (if 0 \<le> maxReminders \<and> maxReminders \<le> 10 then [] else [msg_maxReminders])
     @ (if trim welcomeMessage = [] then [msg_welcomeMessage] else [])
     @ (if trim rulesContent = [] then [msg_rulesContent] else [])"

text \<open>The property names that the two \<open>toJSON\<close> methods write, in their order.\<close>

definition UserState_fields :: "string list" where
  "UserState_fields =
     [''userId'', ''guildId'', ''onboardingStep'', ''rulesAcknowledged'', ''rulesAcknowledgedAt'',
      ''githubConnected'', ''githubUsername'', ''tutorialCompleted'', ''onboardingStartedAt'',
      ''onboardingCompletedAt'', ''remindersSent'']"

definition OnboardingConfig_fields :: "string list" where
  "OnboardingConfig_fields =
     [''guildId'', ''welcomeChannelId'', ''rulesChannelId'', ''welcomeMessage'', ''rulesContent'',
      ''githubIntegrationEnabled'', ''tutorialEnabled'', ''reminderIntervalHours'',
      ''maxReminders'']"

text \<open>
  An object has plain names when it has no own property \<open>toJSON\<close> or \<^verbatim>\<open>__proto__\<close>. A
  patch (or the data given to \<open>fromJSON\<close>) is well formed when it has each name once and
  plain names; a store is well formed when it has each key once, no key \<^verbatim>\<open>__proto__\<close>, and
  records with plain names.
\<close>

definition plain_names :: "jsobj \<Rightarrow> bool" where
  "plain_names obj \<longleftrightarrow> \<not> hasOwnProperty obj ''toJSON'' \<and> \<not> hasOwnProperty obj ''__proto__''"

definition well_formed_patch :: "jsobj \<Rightarrow> bool" where
  "well_formed_patch patch \<longleftrightarrow> distinct (map fst patch) \<and> plain_names patch"

definition well_formed_store :: "(string \<times> jsobj) list \<Rightarrow> bool" where
  "well_formed_store entries \<longleftrightarrow>
     distinct (map fst entries) \<and> ''__proto__'' \<notin> set (map fst entries)
     \<and> list_all plain_names (map snd entries)"

text \<open>The file content that holds the serialised form of every record of a map.\<close>

definition persisted :: "(string \<times> jsobj) list \<Rightarrow> fcontent" where
  "persisted entries = Stored (map (\<lambda>(key, state). (key, JSON_stringify (toJSON state))) entries)"

section \<open>Fixtures\<close>

text \<open>
  The scenario of the repository's manager tests: records of guild \<^verbatim>\<open>guild456\<close> that differ
  in \<open>rulesAcknowledged\<close>, \<open>onboardingStartedAt\<close> and \<open>remindersSent\<close>. The platform parses
  the two time stamps that the scenario uses.
\<close>

definition test_platform :: platform where
  "test_platform =
     \<lparr>StringToNumber = (\<lambda>s. None),
      Date_parse = (\<lambda>s. if s = ''2024-01-01T00:00:00.000Z'' then Some 1704067200000
                         else if s = ''2024-01-02T00:00:00.000Z'' then Some 1704153600000
                         else None)\<rparr>"

definition test_record :: "string \<Rightarrow> bool \<Rightarrow> string \<Rightarrow> int \<Rightarrow> jsobj" where
  "test_record userId acknowledged startedAt sent =
     [(''userId'', JStr userId),
      (''guildId'', JStr ''guild456''),
      (''onboardingStep'', JStr ''rules''),
      (''rulesAcknowledged'', JBool acknowledged),
      (''rulesAcknowledgedAt'', JNull),
      (''githubConnected'', JBool False),
      (''githubUsername'', JNull),
      (''tutorialCompleted'', JBool False),
      (''onboardingStartedAt'', JStr startedAt),
      (''onboardingCompletedAt'', JNull),
      (''remindersSent'', JNum sent)]"

definition test_manager :: UserStateManager where
  "test_manager =
     \<lparr>userStates =
        [(''guild456-user1'', test_record ''user1'' False ''2024-01-01T00:00:00.000Z'' 0),
         (''guild456-user2'', test_record ''user2'' True ''2024-01-01T00:00:00.000Z'' 0),
         (''guild456-user3'', test_record ''user3'' False ''2024-01-02T00:00:00.000Z'' 0),
         (''guild456-user4'', test_record ''user4'' False ''2024-01-01T00:00:00.000Z'' 3)],
      initialized = True\<rparr>"

text \<open>The data of the repository's \<open>fromJSON\<close> test, with one property outside the schema.\<close>

definition test_data :: jsobj where
  "test_data =
     [(''userId'', JStr ''user789''),
      (''guildId'', JStr ''guild012''),
      (''onboardingStep'', JStr ''rules''),
      (''rulesAcknowledged'', JBool True),
      (''rulesAcknowledgedAt'', JStr ''2023-01-01T00:00:00.000Z''),
      (''githubConnected'', JBool False),
      (''githubUsername'', JNull),
      (''tutorialCompleted'', JBool False),
      (''onboardingStartedAt'', JStr ''2023-01-01T00:00:00.000Z''),
      (''onboardingCompletedAt'', JNull),
      (''remindersSent'', JNum 1),
      (''nickname'', JStr ''neo'')]"

text \<open>
  The record of user \<^verbatim>\<open>user123\<close> in guild \<^verbatim>\<open>guild456\<close>, started at the clock reading
  \<^verbatim>\<open>2024-01-02T01:00:00.000Z\<close>, with the given step and acknowledgement and one property
  outside the schema.
\<close>

definition test_record1 :: "jsval \<Rightarrow> jsval \<Rightarrow> jsobj" where
  "test_record1 step acknowledged =
     [(''userId'', JStr ''user123''),
      (''guildId'', JStr ''guild456''),
      (''onboardingStep'', step),
      (''rulesAcknowledged'', acknowledged),
      (''rulesAcknowledgedAt'', JNull),
      (''githubConnected'', JBool False),
      (''githubUsername'', JNull),
      (''tutorialCompleted'', JBool False),
      (''onboardingStartedAt'', JStr ''2024-01-02T01:00:00.000Z''),
      (''onboardingCompletedAt'', JNull),
      (''remindersSent'', JNum 0),
      (''nickname'', JStr ''neo'')]"

definition fresh_manager :: UserStateManager where
  "fresh_manager = \<lparr>userStates = [], initialized = False\<rparr>"

definition test_world :: world where
  "test_world = \<lparr>userStatesFile = Absent, mkdir_ok = True, write_ok = True\<rparr>"

section \<open>Properties of objects\<close>

lemma getProp_setProp:
  "getProp (setProp k v obj) k' = (if k' = k then v else getProp obj k')"
  by (simp add: getProp_def setProp_def update_conv')

lemma map_of_Object_assign:
  "distinct (map fst source) \<Longrightarrow>
   map_of (Object_assign target source) = map_of target ++ map_of source"
proof (induction source arbitrary: target)
  case Nil
  then show ?case by (simp add: Object_assign_def)
next
  case (Cons p source)
  obtain k v where p: "p = (k, v)" by (cases p)
  from Cons.prems p have notin: "k \<notin> fst ` set source" and d: "distinct (map fst source)"
    by auto
  have "map_of (Object_assign target (p # source))
        = map_of (Object_assign (setProp k v target) source)"
    by (simp add: Object_assign_def p)
  also have "\<dots> = map_of (setProp k v target) ++ map_of source"
    by (rule Cons.IH [OF d])
  also have "\<dots> = map_of target ++ map_of (p # source)"
  proof
    fix x
    from notin have "map_of source k = None"
      by (simp add: map_of_eq_None_iff)
    then show "(map_of (setProp k v target) ++ map_of source) x
               = (map_of target ++ map_of (p # source)) x"
      by (simp add: p setProp_def update_conv' map_add_def split: option.splits)
  qed
  finally show ?case .
qed

lemma getProp_Object_assign:
  "distinct (map fst source) \<Longrightarrow>
   getProp (Object_assign target source) k =
     (case map_of source k of None \<Rightarrow> getProp target k | Some v \<Rightarrow> v)"
  by (simp add: getProp_def map_of_Object_assign map_add_def split: option.splits)

section \<open>Properties of UserState\<close>

text \<open>
  C1. On a record as the constructor leaves it, \<^verbatim>\<open>completeStep("rules")\<close> sets
  \<open>rulesAcknowledged\<close> to true, \<open>rulesAcknowledgedAt\<close> to the (non-null) time stamp and
  \<open>onboardingStep\<close> to \<^verbatim>\<open>"github"\<close>; then \<^verbatim>\<open>completeStep("github")\<close> sets \<open>onboardingStep\<close>
  to \<^verbatim>\<open>"tutorial"\<close>; then \<^verbatim>\<open>completeStep("tutorial")\<close> sets \<open>tutorialCompleted\<close> to true,
  \<open>onboardingStep\<close> to \<^verbatim>\<open>"complete"\<close> and \<open>onboardingCompletedAt\<close> to the (non-null) time
  stamp, after which \<^verbatim>\<open>isComplete()\<close> is true.
\<close>

theorem completeStep_chain:
  "(let s0 = UserState_new t0 userId guildId;
        s1 = completeStep t1 (JStr ''rules'') s0;
        s2 = completeStep t2 (JStr ''github'') s1;
        s3 = completeStep t3 (JStr ''tutorial'') s2
    in getProp s1 ''rulesAcknowledged'' = JBool True
     \<and> getProp s1 ''rulesAcknowledgedAt'' = JStr t1
     \<and> getProp s1 ''rulesAcknowledgedAt'' \<noteq> JNull
     \<and> getProp s1 ''onboardingStep'' = JStr ''github''
     \<and> getProp s2 ''onboardingStep'' = JStr ''tutorial''
     \<and> getProp s3 ''tutorialCompleted'' = JBool True
     \<and> getProp s3 ''onboardingStep'' = JStr ''complete''
     \<and> getProp s3 ''onboardingCompletedAt'' = JStr t3
     \<and> getProp s3 ''onboardingCompletedAt'' \<noteq> JNull
     \<and> isComplete s3)"
  by (simp add: Let_def completeStep_def isComplete_def getProp_setProp)

text \<open>
  C4. \<^verbatim>\<open>completeStep\<close> does not compare the record's current \<open>onboardingStep\<close> with the
  step being completed: \<^verbatim>\<open>completeStep("tutorial")\<close> sets \<open>onboardingStep\<close> to \<^verbatim>\<open>"complete"\<close>
  whatever the record held before, in particular on a record still at \<^verbatim>\<open>"welcome"\<close> such
  as the one the constructor makes.
\<close>

theorem completeStep_skip_ahead:
  "getProp (completeStep stamp (JStr ''tutorial'') this) ''onboardingStep'' = JStr ''complete''
   \<and> isComplete (completeStep stamp (JStr ''tutorial'') this)
   \<and> getProp (UserState_new t0 userId guildId) ''onboardingStep'' = JStr ''welcome''
   \<and> getProp (completeStep stamp (JStr ''tutorial'') (UserState_new t0 userId guildId))
         ''onboardingStep'' = JStr ''complete''"
  by (simp add: completeStep_def isComplete_def getProp_setProp)
     (simp add: UserState_new_def getProp_def)

text \<open>
  C7. For a step argument other than \<^verbatim>\<open>"rules"\<close>, \<^verbatim>\<open>"github"\<close> and \<^verbatim>\<open>"tutorial"\<close>,
  \<^verbatim>\<open>completeStep\<close> returns normally and leaves the whole record as it was.
\<close>

theorem completeStep_other_noop:
  "step \<notin> {JStr ''rules'', JStr ''github'', JStr ''tutorial''} \<Longrightarrow>
   completeStep stamp step this = this"
  by (simp add: completeStep_def)

theorem completeStep_other_noop_witness:
  "JStr ''welcome'' \<notin> {JStr ''rules'', JStr ''github'', JStr ''tutorial''}
   \<and> completeStep ''2024-01-01T00:00:00.000Z'' (JStr ''welcome'')
         (UserState_new ''2023-12-31T00:00:00.000Z'' (JStr ''user123'') (JStr ''guild456''))
       = UserState_new ''2023-12-31T00:00:00.000Z'' (JStr ''user123'') (JStr ''guild456'')"
proof -
  have h: "JStr ''welcome'' \<notin> {JStr ''rules'', JStr ''github'', JStr ''tutorial''}"
    by simp
  show ?thesis
    using h completeStep_other_noop [OF h] by simp
qed

text \<open>
  C9. For every record and every step argument, \<^verbatim>\<open>completeStep\<close> changes at most the
  properties \<open>rulesAcknowledged\<close>, \<open>rulesAcknowledgedAt\<close>, \<open>onboardingStep\<close>,
  \<open>tutorialCompleted\<close> and \<open>onboardingCompletedAt\<close>; the properties \<open>userId\<close>, \<open>guildId\<close>,
  \<open>githubConnected\<close>, \<open>githubUsername\<close>, \<open>onboardingStartedAt\<close> and \<open>remindersSent\<close> keep
  their values.
\<close>

theorem completeStep_frame:
  "(\<forall>k. k \<notin> {''rulesAcknowledged'', ''rulesAcknowledgedAt'', ''onboardingStep'',
               ''tutorialCompleted'', ''onboardingCompletedAt''} \<longrightarrow>
         getProp (completeStep stamp step this) k = getProp this k)
   \<and> getProp (completeStep stamp step this) ''userId'' = getProp this ''userId''
   \<and> getProp (completeStep stamp step this) ''guildId'' = getProp this ''guildId''
   \<and> getProp (completeStep stamp step this) ''githubConnected'' = getProp this ''githubConnected''
   \<and> getProp (completeStep stamp step this) ''githubUsername'' = getProp this ''githubUsername''
   \<and> getProp (completeStep stamp step this) ''onboardingStartedAt''
       = getProp this ''onboardingStartedAt''
   \<and> getProp (completeStep stamp step this) ''remindersSent'' = getProp this ''remindersSent''"
  by (simp add: completeStep_def getProp_setProp)

theorem completeStep_frame_witness:
  "''remindersSent'' \<notin> {''rulesAcknowledged'', ''rulesAcknowledgedAt'', ''onboardingStep'',
               ''tutorialCompleted'', ''onboardingCompletedAt''}
   \<and> getProp (completeStep ''2024-01-01T00:00:00.000Z'' (JStr ''rules'')
         (UserState_new ''2023-12-31T00:00:00.000Z'' (JStr ''user123'') (JStr ''guild456'')))
         ''remindersSent'' = JNum 0"
proof -
  have h: "''remindersSent'' \<notin> {''rulesAcknowledged'', ''rulesAcknowledgedAt'',
             ''onboardingStep'', ''tutorialCompleted'', ''onboardingCompletedAt''}"
    by simp
  have "getProp (completeStep ''2024-01-01T00:00:00.000Z'' (JStr ''rules'')
         (UserState_new ''2023-12-31T00:00:00.000Z'' (JStr ''user123'') (JStr ''guild456'')))
         ''remindersSent''
        = getProp (UserState_new ''2023-12-31T00:00:00.000Z'' (JStr ''user123'')
            (JStr ''guild456'')) ''remindersSent''"
    by (rule completeStep_frame [THEN conjunct1, rule_format, OF h])
  moreover have "getProp (UserState_new ''2023-12-31T00:00:00.000Z'' (JStr ''user123'')
            (JStr ''guild456'')) ''remindersSent'' = JNum 0"
    by (simp add: UserState_new_def getProp_def)
  ultimately show ?thesis
    using h by simp
qed

lemma getProp_Object_assign_absent:
  "k \<notin> fst ` set source \<Longrightarrow> getProp (Object_assign target source) k = getProp target k"
proof (induction source arbitrary: target)
  case Nil
  then show ?case by (simp add: Object_assign_def)
next
  case (Cons p source)
  obtain k' v where p: "p = (k', v)" by (cases p)
  with Cons.prems have ne: "k \<noteq> k'" and notin: "k \<notin> fst ` set source"
    by auto
  have "getProp (Object_assign target (p # source)) k
        = getProp (Object_assign (setProp k' v target) source) k"
    by (simp add: Object_assign_def p)
  also have "\<dots> = getProp (setProp k' v target) k"
    by (rule Cons.IH [OF notin])
  also have "\<dots> = getProp target k"
    using ne by (simp add: getProp_setProp)
  finally show ?case .
qed

text \<open>
  C10. \<^verbatim>\<open>fromJSON\<close> on data that lacks a property leaves that property as the constructor
  set it. For data holding only \<open>userId\<close> and \<open>guildId\<close> the result is the constructor's
  record: \<open>onboardingStep\<close> is \<^verbatim>\<open>"welcome"\<close>, \<open>rulesAcknowledged\<close> is false, \<open>remindersSent\<close>
  is 0, and \<open>onboardingStartedAt\<close> is the clock reading taken by this call of \<^verbatim>\<open>fromJSON\<close>.
\<close>

theorem fromJSON_missing_fields:
  "(k \<notin> fst ` set data \<longrightarrow>
      getProp (fromJSON stamp data) k
      = getProp (UserState_new stamp (getProp data ''userId'') (getProp data ''guildId'')) k)
   \<and> fromJSON stamp [(''userId'', u), (''guildId'', g)] = UserState_new stamp u g
   \<and> getProp (fromJSON stamp [(''userId'', u), (''guildId'', g)]) ''onboardingStep''
       = JStr ''welcome''
   \<and> getProp (fromJSON stamp [(''userId'', u), (''guildId'', g)]) ''rulesAcknowledged''
       = JBool False
   \<and> getProp (fromJSON stamp [(''userId'', u), (''guildId'', g)]) ''remindersSent'' = JNum 0
   \<and> getProp (fromJSON stamp [(''userId'', u), (''guildId'', g)]) ''onboardingStartedAt''
       = JStr stamp"
proof -
  have eq: "fromJSON stamp [(''userId'', u), (''guildId'', g)] = UserState_new stamp u g"
    by (simp add: fromJSON_def Object_assign_def setProp_def getProp_def UserState_new_def)
  have a: "k \<notin> fst ` set data \<longrightarrow>
      getProp (fromJSON stamp data) k
      = getProp (UserState_new stamp (getProp data ''userId'') (getProp data ''guildId'')) k"
    by (simp add: fromJSON_def getProp_Object_assign_absent)
  have b: "getProp (UserState_new stamp u g) ''onboardingStep'' = JStr ''welcome''"
    "getProp (UserState_new stamp u g) ''rulesAcknowledged'' = JBool False"
    "getProp (UserState_new stamp u g) ''remindersSent'' = JNum 0"
    "getProp (UserState_new stamp u g) ''onboardingStartedAt'' = JStr stamp"
    by (simp_all add: UserState_new_def getProp_def)
  show ?thesis
    unfolding eq by (intro conjI a b refl)
qed

theorem fromJSON_missing_fields_witness:
  "''githubConnected'' \<notin> fst ` set [(''userId'', JStr ''user123''), (''guildId'', JStr ''guild456'')]
   \<and> getProp (fromJSON ''2024-01-01T00:00:00.000Z''
         [(''userId'', JStr ''user123''), (''guildId'', JStr ''guild456'')]) ''githubConnected''
       = JBool False"
proof -
  have h: "''githubConnected''
      \<notin> fst ` set [(''userId'', JStr ''user123''), (''guildId'', JStr ''guild456'')]"
    by simp
  have "getProp (fromJSON ''2024-01-01T00:00:00.000Z''
         [(''userId'', JStr ''user123''), (''guildId'', JStr ''guild456'')]) ''githubConnected''
        = getProp (UserState_new ''2024-01-01T00:00:00.000Z''
            (getProp [(''userId'', JStr ''user123''), (''guildId'', JStr ''guild456'')] ''userId'')
            (getProp [(''userId'', JStr ''user123''), (''guildId'', JStr ''guild456'')] ''guildId''))
            ''githubConnected''"
    by (rule fromJSON_missing_fields [THEN conjunct1, rule_format, OF h])
  moreover have "getProp (UserState_new ''2024-01-01T00:00:00.000Z''
            (getProp [(''userId'', JStr ''user123''), (''guildId'', JStr ''guild456'')] ''userId'')
            (getProp [(''userId'', JStr ''user123''), (''guildId'', JStr ''guild456'')] ''guildId''))
            ''githubConnected'' = JBool False"
    by (simp add: UserState_new_def getProp_def)
  ultimately show ?thesis
    using h by simp
qed

section \<open>Properties of UserStateManager\<close>

lemma initialize_initialized:
  "initialize stamp w m = (Inr (), m1) \<Longrightarrow> initialized m1"
  by (auto simp: initialize_def loadUserStates_def split: if_splits fcontent.splits)

lemma initialize_again:
  "initialized m \<Longrightarrow> initialize stamp w m = (Inr (), m)"
  by (simp add: initialize_def)

lemma Map_set_fresh:
  "k \<notin> fst ` set es \<Longrightarrow> Map_set k v es = es @ [(k, v)]"
  by (induction es) (auto simp: Map_set_def)

lemma Map_set_last:
  "k \<notin> fst ` set es \<Longrightarrow> Map_set k v (es @ [(k, v0)]) = es @ [(k, v)]"
  by (induction es) (auto simp: Map_set_def)

lemma Map_get_last:
  "k \<notin> fst ` set es \<Longrightarrow> Map_get (es @ [(k, v)]) k = Some v"
  by (induction es) (auto simp: Map_get_def)

lemma Map_get_None:
  "Map_get es k = None \<longleftrightarrow> k \<notin> fst ` set es"
  by (simp add: Map_get_def map_of_eq_None_iff)

lemma hasOwnProperty_iff: "hasOwnProperty obj k \<longleftrightarrow> k \<in> fst ` set obj"
  by (simp add: hasOwnProperty_def map_of_eq_None_iff)

lemma keys_setProp: "fst ` set (setProp k v obj) = insert k (fst ` set obj)"
  by (simp add: setProp_def dom_update)

lemma keys_Object_assign:
  "fst ` set (Object_assign target source) = fst ` set target \<union> fst ` set source"
proof (induction source arbitrary: target)
  case Nil
  then show ?case by (simp add: Object_assign_def)
next
  case (Cons p source)
  obtain k v where p: "p = (k, v)" by (cases p)
  have "Object_assign target (p # source) = Object_assign (setProp k v target) source"
    by (simp add: Object_assign_def p)
  then show ?case
    by (simp add: Cons.IH keys_setProp p)
qed

lemma plain_names_Object_assign:
  "plain_names target \<Longrightarrow> plain_names source \<Longrightarrow> plain_names (Object_assign target source)"
  by (simp add: plain_names_def hasOwnProperty_iff keys_Object_assign)

lemma plain_names_UserState_new: "plain_names (UserState_new stamp u g)"
  by (simp add: plain_names_def hasOwnProperty_def UserState_new_def)

lemma plain_names_OnboardingConfig_new: "plain_names (OnboardingConfig_new g)"
  by (simp add: plain_names_def hasOwnProperty_def OnboardingConfig_new_def)

lemma call_toJSON_plain: "plain_names state \<Longrightarrow> call_toJSON state = Inr (toJSON state)"
  by (simp add: call_toJSON_def plain_names_def)

lemma getUserKey_not_proto: "getUserKey userId guildId \<noteq> ''__proto__''"
proof
  assume "getUserKey userId guildId = ''__proto__''"
  then have "set (getUserKey userId guildId) = set ''__proto__''"
    by simp
  moreover have "CHR ''-'' \<in> set (getUserKey userId guildId)"
    by (simp add: getUserKey_def)
  ultimately have "CHR ''-'' \<in> set ''__proto__''"
    by simp
  then show False
    by simp
qed

lemma update_fresh:
  "k \<notin> fst ` set es \<Longrightarrow> AList.update k v es = es @ [(k, v)]"
  by (induction es) auto

lemma collectStatesData_plain:
  "distinct (map fst es) \<Longrightarrow> fst ` set es \<inter> fst ` set acc = {} \<Longrightarrow>
   ''__proto__'' \<notin> set (map fst es) \<Longrightarrow> list_all plain_names (map snd es) \<Longrightarrow>
   collectStatesData es acc = Inr (acc @ map (\<lambda>(k, s). (k, toJSON s)) es)"
proof (induction es arbitrary: acc)
  case Nil
  then show ?case by simp
next
  case (Cons p es)
  obtain k s where p: "p = (k, s)" by (cases p)
  from Cons.prems p have fresh: "k \<notin> fst ` set acc" and d: "distinct (map fst es)"
    and k: "k \<notin> fst ` set es" and disj: "fst ` set es \<inter> fst ` set acc = {}"
    and np: "k \<noteq> ''__proto__''" and np': "''__proto__'' \<notin> set (map fst es)"
    and pl: "plain_names s" and pl': "list_all plain_names (map snd es)"
    by auto
  have disj': "fst ` set es \<inter> fst ` set (acc @ [(k, toJSON s)]) = {}"
    using k disj by auto
  show ?case
    by (simp add: p call_toJSON_plain [OF pl] np update_fresh [OF fresh]
          Cons.IH [OF d disj' np' pl'])
qed

lemma saveUserStates_persisted:
  assumes "well_formed_store (userStates m)" and "write_ok w"
  shows "saveUserStates w m = (Inr (), w\<lparr>userStatesFile := persisted (userStates m)\<rparr>)"
proof -
  from assms(1) have "collectStatesData (userStates m) []
        = Inr (map (\<lambda>(key, state). (key, toJSON state)) (userStates m))"
    using collectStatesData_plain [of "userStates m" "[]"] by (simp add: well_formed_store_def)
  then show ?thesis
    using assms(2)
    by (simp add: saveUserStates_def persisted_def split_def comp_def)
qed

lemma well_formed_store_snoc:
  assumes "well_formed_store es" and "k \<notin> fst ` set es" and "k \<noteq> ''__proto__''"
    and "plain_names r"
  shows "well_formed_store (es @ [(k, r)])"
  using assms by (auto simp: well_formed_store_def)

lemma reminder_condition_typed:
  assumes "schema_typed r"
  shows "(getProp r ''guildId'' = JStr guildId
          \<and> \<not> ToBoolean (getProp r ''rulesAcknowledged'')
          \<and> js_less (ToNumber pf (getProp r ''remindersSent'')) (Some maxReminders)
          \<and> js_greater_eq
               (js_minus (Some now) (Date_new pf (getProp r ''onboardingStartedAt'')))
               (Some (24 * 60 * 60 * 1000)))
         \<longleftrightarrow> spec_needs_reminder pf now guildId maxReminders r"
proof -
  from assms obtain b n where
    b: "getProp r ''rulesAcknowledged'' = JBool b" and n: "getProp r ''remindersSent'' = JNum n"
    by (auto simp: schema_typed_def split: jsval.splits)
  show ?thesis
    by (cases "Date_new pf (getProp r ''onboardingStartedAt'')")
       (simp_all add: spec_needs_reminder_def b n js_less_def js_greater_eq_def js_minus_def)
qed

lemma filter_reminder_condition:
  assumes "list_all schema_typed rs"
  shows "filter (\<lambda>state. getProp state ''guildId'' = JStr guildId
          \<and> \<not> ToBoolean (getProp state ''rulesAcknowledged'')
          \<and> js_less (ToNumber pf (getProp state ''remindersSent'')) (Some maxReminders)
          \<and> js_greater_eq
               (js_minus (Some now) (Date_new pf (getProp state ''onboardingStartedAt'')))
               (Some (24 * 60 * 60 * 1000))) rs
       = filter (spec_needs_reminder pf now guildId maxReminders) rs"
  using assms
  by (intro filter_cong refl reminder_condition_typed) (simp add: list_all_iff)

text \<open>
  C2. Once the manager is initialised, \<open>getUsersNeedingReminders\<close> returns, in the order
  of the map, exactly the records whose \<open>guildId\<close> is the argument, whose
  \<open>rulesAcknowledged\<close> is false, whose \<open>remindersSent\<close> is strictly below \<open>maxReminders\<close>
  (3 when omitted) and whose \<open>onboardingStartedAt\<close> lies at least 24 hours (86400000 ms, a
  constant of the function) before now; the manager and its records are returned as they
  were. A record whose \<open>remindersSent\<close> equals \<open>maxReminders\<close> does not qualify. The records
  are taken to hold a boolean in \<open>rulesAcknowledged\<close> and a number in \<open>remindersSent\<close>, as
  the schema says.
\<close>

theorem getUsersNeedingReminders_spec:
  assumes "initialize stamp w m = (Inr (), m1)"
    and "list_all schema_typed (map snd (userStates m1))"
  shows "getUsersNeedingReminders pf stamp now guildId maxRemindersArg w m
         = (Inr (filter
                  (spec_needs_reminder pf now guildId
                     (case maxRemindersArg of None \<Rightarrow> 3 | Some n \<Rightarrow> n))
                  (map snd (userStates m1))), m1)
       \<and> \<not> spec_needs_reminder pf now guildId maxReminders
             (setProp ''remindersSent'' (JNum maxReminders) r)"
proof
  show "getUsersNeedingReminders pf stamp now guildId maxRemindersArg w m
         = (Inr (filter
                  (spec_needs_reminder pf now guildId
                     (case maxRemindersArg of None \<Rightarrow> 3 | Some n \<Rightarrow> n))
                  (map snd (userStates m1))), m1)"
    unfolding getUsersNeedingReminders_def assms(1)
    by (simp only: prod.case sum.case Let_def filter_reminder_condition [OF assms(2)])
  show "\<not> spec_needs_reminder pf now guildId maxReminders
             (setProp ''remindersSent'' (JNum maxReminders) r)"
    by (simp add: spec_needs_reminder_def getProp_setProp)
qed

theorem getUsersNeedingReminders_spec_witness:
  "initialize ''2024-01-02T01:00:00.000Z'' test_world test_manager = (Inr (), test_manager)
   \<and> list_all schema_typed (map snd (userStates test_manager))
   \<and> getUsersNeedingReminders test_platform ''2024-01-02T01:00:00.000Z'' 1704157200000
         ''guild456'' (Some 3) test_world test_manager
       = (Inr [test_record ''user1'' False ''2024-01-01T00:00:00.000Z'' 0], test_manager)"
proof -
  have h1: "initialize ''2024-01-02T01:00:00.000Z'' test_world test_manager
            = (Inr (), test_manager)"
    by (simp add: initialize_def test_manager_def)
  have typed: "schema_typed (test_record u a s n)" for u a s n
    by (simp add: schema_typed_def test_record_def getProp_def)
  have h2: "list_all schema_typed (map snd (userStates test_manager))"
    by (simp add: test_manager_def typed)
  have parse: "Date_new test_platform (getProp (test_record u a ''2024-01-01T00:00:00.000Z'' n)
                  ''onboardingStartedAt'') = Some 1704067200000"
    "Date_new test_platform (getProp (test_record u a ''2024-01-02T00:00:00.000Z'' n)
                  ''onboardingStartedAt'') = Some 1704153600000" for u a n
    by (simp_all add: Date_new_def test_platform_def test_record_def getProp_def)
  have fields: "getProp (test_record u a s n) ''guildId'' = JStr ''guild456''"
    "getProp (test_record u a s n) ''rulesAcknowledged'' = JBool a"
    "getProp (test_record u a s n) ''remindersSent'' = JNum n" for u a s n
    by (simp_all add: test_record_def getProp_def)
  have sel: "filter (spec_needs_reminder test_platform 1704157200000 ''guild456'' 3)
               (map snd (userStates test_manager))
             = [test_record ''user1'' False ''2024-01-01T00:00:00.000Z'' 0]"
    by (simp add: test_manager_def spec_needs_reminder_def parse fields)
  show ?thesis
    using h1 h2 getUsersNeedingReminders_spec [OF h1 h2, of test_platform 1704157200000
        "''guild456''" "Some 3" 3 "[]", THEN conjunct1]
    by (simp add: sel)
qed

text \<open>
  C3. In a well-formed store and for well-formed patches: on a key absent from the map,
  \<open>updateUserState\<close> creates the constructor's record and writes the patch's properties
  over it; a second call on the same key writes the second patch over the result. So each
  property has the value of the later patch if that patch sets it, else the value of the
  earlier patch if that one sets it, else the constructor's value. Each call returns the
  updated record, keeps it in the map under the key, and leaves in the file the serialised
  form of every record of the map. (The manager initialises and the file can be written.)
\<close>

theorem updateUserState_creates_and_merges:
  assumes init: "initialize stamp w m = (Inr (), m1)"
    and wr: "write_ok w"
    and store: "well_formed_store (userStates m1)"
    and absent: "Map_get (userStates m1) (getUserKey userId guildId) = None"
    and p1: "well_formed_patch patch1"
    and p2: "well_formed_patch patch2"
  shows "(let key = getUserKey userId guildId;
              r0 = UserState_new stamp (JStr userId) (JStr guildId);
              r1 = Object_assign r0 patch1;
              m2 = m1\<lparr>userStates := userStates m1 @ [(key, r1)]\<rparr>;
              w2 = w\<lparr>userStatesFile := persisted (userStates m2)\<rparr>;
              r2 = Object_assign r1 patch2;
              m3 = m1\<lparr>userStates := userStates m1 @ [(key, r2)]\<rparr>;
              w3 = w\<lparr>userStatesFile := persisted (userStates m3)\<rparr>
          in updateUserState stamp userId guildId patch1 w m = (Inr r1, m2, w2)
           \<and> updateUserState stamp' userId guildId patch2 w2 m2 = (Inr r2, m3, w3)
           \<and> (\<forall>k. getProp r1 k
                    = (case map_of patch1 k of Some v \<Rightarrow> v | None \<Rightarrow> getProp r0 k))
           \<and> (\<forall>k. getProp r2 k
                    = (case map_of patch2 k of
                         Some v \<Rightarrow> v
                       | None \<Rightarrow> (case map_of patch1 k of
                                     Some v \<Rightarrow> v
                                   | None \<Rightarrow> getProp r0 k))))"
proof -
  define key where "key = getUserKey userId guildId"
  define r0 where "r0 = UserState_new stamp (JStr userId) (JStr guildId)"
  define r1 where "r1 = Object_assign r0 patch1"
  define m2 where "m2 = m1\<lparr>userStates := userStates m1 @ [(key, r1)]\<rparr>"
  define w2 where "w2 = w\<lparr>userStatesFile := persisted (userStates m2)\<rparr>"
  define r2 where "r2 = Object_assign r1 patch2"
  define m3 where "m3 = m1\<lparr>userStates := userStates m1 @ [(key, r2)]\<rparr>"
  define w3 where "w3 = w\<lparr>userStatesFile := persisted (userStates m3)\<rparr>"
  from p1 p2 have d1: "distinct (map fst patch1)" and d2: "distinct (map fst patch2)"
    and n1: "plain_names patch1" and n2: "plain_names patch2"
    by (simp_all add: well_formed_patch_def)
  have pl1: "plain_names r1"
    unfolding r1_def r0_def by (rule plain_names_Object_assign [OF plain_names_UserState_new n1])
  have pl2: "plain_names r2"
    unfolding r2_def by (rule plain_names_Object_assign [OF pl1 n2])
  from absent have fresh: "key \<notin> fst ` set (userStates m1)"
    by (simp add: Map_get_None key_def)
  have np: "key \<noteq> ''__proto__''"
    unfolding key_def by (rule getUserKey_not_proto)
  have get1: "Map_get (userStates m1) key = None"
    using absent by (simp add: key_def)
  have set1: "Map_set key r1 (Map_set key r0 (userStates m1)) = userStates m1 @ [(key, r1)]"
    by (simp add: Map_set_fresh [OF fresh] Map_set_last [OF fresh])
  have store2: "well_formed_store (userStates m2)"
    unfolding m2_def using well_formed_store_snoc [OF store fresh np pl1] by simp
  have save2: "saveUserStates w m2 = (Inr (), w2)"
    unfolding w2_def by (rule saveUserStates_persisted [OF store2 wr])
  have first: "updateUserState stamp userId guildId patch1 w m = (Inr r1, m2, w2)"
    unfolding updateUserState_def init
    by (simp add: Let_def get1 set1 save2
          key_def [symmetric] r0_def [symmetric] r1_def [symmetric] m2_def [symmetric])
  have init2: "initialize stamp' w2 m2 = (Inr (), m2)"
    using initialize_initialized [OF init] by (simp add: initialize_again m2_def)
  have get2: "Map_get (userStates m2) key = Some r1"
    by (simp add: m2_def Map_get_last [OF fresh])
  have set2: "Map_set key r2 (userStates m2) = userStates m1 @ [(key, r2)]"
    by (simp add: m2_def Map_set_last [OF fresh])
  have m3: "m2\<lparr>userStates := userStates m1 @ [(key, r2)]\<rparr> = m3"
    by (simp add: m2_def m3_def)
  have store3: "well_formed_store (userStates m3)"
    unfolding m3_def using well_formed_store_snoc [OF store fresh np pl2] by simp
  have wr2: "write_ok w2"
    using wr by (simp add: w2_def)
  have w3: "w2\<lparr>userStatesFile := persisted (userStates m3)\<rparr> = w3"
    by (simp add: w2_def w3_def)
  have save3: "saveUserStates w2 m3 = (Inr (), w3)"
    using saveUserStates_persisted [OF store3 wr2] by (simp add: w3)
  have second: "updateUserState stamp' userId guildId patch2 w2 m2 = (Inr r2, m3, w3)"
    unfolding updateUserState_def init2
    by (simp add: Let_def key_def [symmetric] get2 set2 m3 save3 r2_def [symmetric])
  have f1: "getProp r1 k = (case map_of patch1 k of Some v \<Rightarrow> v | None \<Rightarrow> getProp r0 k)"
    for k
    by (simp add: r1_def getProp_Object_assign [OF d1] split: option.splits)
  have f2: "getProp r2 k
      = (case map_of patch2 k of
           Some v \<Rightarrow> v
         | None \<Rightarrow> (case map_of patch1 k of Some v \<Rightarrow> v | None \<Rightarrow> getProp r0 k))" for k
    by (simp add: r2_def getProp_Object_assign [OF d2] f1 split: option.splits)
  from first second f1 f2 show ?thesis
    unfolding Let_def key_def r0_def r1_def m2_def w2_def r2_def m3_def w3_def
    by (intro conjI allI)
qed

theorem updateUserState_creates_and_merges_witness:
  "initialize ''2024-01-02T01:00:00.000Z'' test_world fresh_manager
     = (Inr (), \<lparr>userStates = [], initialized = True\<rparr>)
   \<and> write_ok test_world
   \<and> well_formed_store (userStates \<lparr>userStates = [], initialized = True\<rparr>)
   \<and> Map_get (userStates \<lparr>userStates = [], initialized = True\<rparr>)
         (getUserKey ''user123'' ''guild456'') = None
   \<and> well_formed_patch [(''onboardingStep'', JStr ''rules''), (''nickname'', JStr ''neo'')]
   \<and> well_formed_patch [(''onboardingStep'', JStr ''github''), (''rulesAcknowledged'', JBool True)]
   \<and> updateUserState ''2024-01-02T01:00:00.000Z'' ''user123'' ''guild456''
         [(''onboardingStep'', JStr ''rules''), (''nickname'', JStr ''neo'')]
         test_world fresh_manager
       = (Inr (test_record1 (JStr ''rules'') (JBool False)),
          \<lparr>userStates = [(''guild456-user123'', test_record1 (JStr ''rules'') (JBool False))],
           initialized = True\<rparr>,
          test_world\<lparr>userStatesFile :=
             Stored [(''guild456-user123'',
                      butlast (test_record1 (JStr ''rules'') (JBool False)))]\<rparr>)
   \<and> updateUserState ''2024-01-03T01:00:00.000Z'' ''user123'' ''guild456''
         [(''onboardingStep'', JStr ''github''), (''rulesAcknowledged'', JBool True)]
         (test_world\<lparr>userStatesFile :=
             Stored [(''guild456-user123'',
                      butlast (test_record1 (JStr ''rules'') (JBool False)))]\<rparr>)
         \<lparr>userStates = [(''guild456-user123'', test_record1 (JStr ''rules'') (JBool False))],
          initialized = True\<rparr>
       = (Inr (test_record1 (JStr ''github'') (JBool True)),
          \<lparr>userStates = [(''guild456-user123'', test_record1 (JStr ''github'') (JBool True))],
           initialized = True\<rparr>,
          test_world\<lparr>userStatesFile :=
             Stored [(''guild456-user123'',
                      butlast (test_record1 (JStr ''github'') (JBool True)))]\<rparr>)"
proof -
  let ?m1 = "\<lparr>userStates = [], initialized = True\<rparr>"
  let ?r0 = "UserState_new ''2024-01-02T01:00:00.000Z'' (JStr ''user123'') (JStr ''guild456'')"
  let ?p1 = "[(''onboardingStep'', JStr ''rules''), (''nickname'', JStr ''neo'')]"
  let ?p2 = "[(''onboardingStep'', JStr ''github''), (''rulesAcknowledged'', JBool True)]"
  have h1: "initialize ''2024-01-02T01:00:00.000Z'' test_world fresh_manager = (Inr (), ?m1)"
    by (simp add: initialize_def loadUserStates_def fresh_manager_def test_world_def)
  have h2: "write_ok test_world"
    by (simp add: test_world_def)
  have h3: "well_formed_store (userStates ?m1)"
    by (simp add: well_formed_store_def)
  have h4: "Map_get (userStates ?m1) (getUserKey ''user123'' ''guild456'') = None"
    by (simp add: Map_get_def)
  have h5: "well_formed_patch ?p1"
    by (simp add: well_formed_patch_def plain_names_def hasOwnProperty_def)
  have h6: "well_formed_patch ?p2"
    by (simp add: well_formed_patch_def plain_names_def hasOwnProperty_def)
  note T = updateUserState_creates_and_merges [OF h1 h2 h3 h4 h5 h6, unfolded Let_def,
      of "''2024-01-03T01:00:00.000Z''"]
  have r1: "Object_assign ?r0 ?p1 = test_record1 (JStr ''rules'') (JBool False)"
    by (simp add: Object_assign_def setProp_def UserState_new_def test_record1_def)
  have r2: "Object_assign (test_record1 (JStr ''rules'') (JBool False)) ?p2
            = test_record1 (JStr ''github'') (JBool True)"
    by (simp add: Object_assign_def setProp_def test_record1_def)
  have key: "getUserKey ''user123'' ''guild456'' = ''guild456-user123''"
    by (simp add: getUserKey_def)
  have js: "JSON_stringify (toJSON (test_record1 (JStr s) (JBool a)))
            = butlast (test_record1 (JStr s) (JBool a))" for s a
    by (simp add: JSON_stringify_def toJSON_def test_record1_def getProp_def)
  have a: "updateUserState ''2024-01-02T01:00:00.000Z'' ''user123'' ''guild456'' ?p1
         test_world fresh_manager
       = (Inr (test_record1 (JStr ''rules'') (JBool False)),
          \<lparr>userStates = [(''guild456-user123'', test_record1 (JStr ''rules'') (JBool False))],
           initialized = True\<rparr>,
          test_world\<lparr>userStatesFile :=
             Stored [(''guild456-user123'',
                      butlast (test_record1 (JStr ''rules'') (JBool False)))]\<rparr>)"
    using T [THEN conjunct1] by (simp add: r1 key persisted_def js)
  have b: "updateUserState ''2024-01-03T01:00:00.000Z'' ''user123'' ''guild456'' ?p2
         (test_world\<lparr>userStatesFile :=
             Stored [(''guild456-user123'',
                      butlast (test_record1 (JStr ''rules'') (JBool False)))]\<rparr>)
         \<lparr>userStates = [(''guild456-user123'', test_record1 (JStr ''rules'') (JBool False))],
          initialized = True\<rparr>
       = (Inr (test_record1 (JStr ''github'') (JBool True)),
          \<lparr>userStates = [(''guild456-user123'', test_record1 (JStr ''github'') (JBool True))],
           initialized = True\<rparr>,
          test_world\<lparr>userStatesFile :=
             Stored [(''guild456-user123'',
                      butlast (test_record1 (JStr ''github'') (JBool True)))]\<rparr>)"
    using T [THEN conjunct2, THEN conjunct1] by (simp add: r1 r2 key persisted_def js)
  show ?thesis
    by (intro conjI h1 h2 h3 h4 h5 h6 a b)
qed

text \<open>
  C3, where the claim fails. A patch with a property \<open>toJSON\<close> is assigned to the new
  record, which stays in the map; saving then raises a \<^verbatim>\<open>TypeError\<close>: no record is
  returned and the file is not written.
\<close>

theorem updateUserState_toJSON_patch_counterexample:
  "updateUserState ''2024-01-02T01:00:00.000Z'' ''user123'' ''guild456''
     [(''toJSON'', JStr ''x'')] test_world fresh_manager
   = (Inl TypeError,
      \<lparr>userStates =
         [(''guild456-user123'',
           UserState_new ''2024-01-02T01:00:00.000Z'' (JStr ''user123'') (JStr ''guild456'')
             @ [(''toJSON'', JStr ''x'')])],
       initialized = True\<rparr>,
      test_world)
   \<and> userStatesFile test_world = Absent"
  by (simp add: updateUserState_def initialize_def loadUserStates_def fresh_manager_def
        test_world_def Map_get_def Map_set_def getUserKey_def Object_assign_def setProp_def
        UserState_new_def saveUserStates_def call_toJSON_def hasOwnProperty_def)

lemma well_formed_store_filter:
  "well_formed_store es \<Longrightarrow> well_formed_store (filter P es)"
  by (auto simp: well_formed_store_def distinct_map_filter list_all_iff)


text \<open>
  C8. Once the manager is initialised, \<open>deleteUserState\<close> removes the entry of the
  composite key and keeps every other entry, in order; when the key is absent the manager
  stays as it was, and no error comes of it: in a well-formed store whose file can be
  written the call returns normally and the file holds the serialised form of the
  remaining records. After it, \<open>getUserState\<close> on the same user and guild returns
  \<^verbatim>\<open>null\<close>.
\<close>

theorem deleteUserState_then_getUserState:
  assumes init: "initialize stamp w m = (Inr (), m1)"
  shows "(case deleteUserState stamp userId guildId w m of
            (r, m2, w2) \<Rightarrow>
              m2 = m1\<lparr>userStates :=
                        filter (\<lambda>(k, state). k \<noteq> getUserKey userId guildId) (userStates m1)\<rparr>
            \<and> (Map_get (userStates m1) (getUserKey userId guildId) = None \<longrightarrow> m2 = m1)
            \<and> (well_formed_store (userStates m1) \<and> write_ok w \<longrightarrow>
                  r = Inr () \<and> w2 = w\<lparr>userStatesFile := persisted (userStates m2)\<rparr>)
            \<and> Map_get (userStates m2) (getUserKey userId guildId) = None
            \<and> getUserState stamp' userId guildId w2 m2 = (Inr None, m2))"
proof -
  define key where "key = getUserKey userId guildId"
  define m2 where "m2 = m1\<lparr>userStates := filter (\<lambda>(k, state). k \<noteq> key) (userStates m1)\<rparr>"
  have flt: "Map_delete key (userStates m1) = filter (\<lambda>(k, state). k \<noteq> key) (userStates m1)"
    by (simp add: Map_delete_def AList.delete_eq eq_commute)
  have "deleteUserState stamp userId guildId w m
        = (case saveUserStates w m2 of (r, w') \<Rightarrow> (r, m2, w'))"
    unfolding deleteUserState_def init
    by (simp only: prod.case sum.case Let_def key_def [symmetric] flt m2_def [symmetric])
  then have del: "deleteUserState stamp userId guildId w m
             = (fst (saveUserStates w m2), m2, snd (saveUserStates w m2))"
    by (simp add: split_def)
  have same: "Map_get (userStates m1) key = None \<longrightarrow> m2 = m1"
  proof
    assume "Map_get (userStates m1) key = None"
    then have "key \<notin> fst ` set (userStates m1)"
      by (simp add: Map_get_None)
    then have "filter (\<lambda>(k, state). k \<noteq> key) (userStates m1) = userStates m1"
      by (force simp: filter_id_conv)
    then show "m2 = m1"
      by (simp add: m2_def)
  qed
  have ok: "well_formed_store (userStates m1) \<and> write_ok w \<longrightarrow>
        fst (saveUserStates w m2) = Inr ()
        \<and> snd (saveUserStates w m2) = w\<lparr>userStatesFile := persisted (userStates m2)\<rparr>"
  proof
    assume a: "well_formed_store (userStates m1) \<and> write_ok w"
    then have "well_formed_store (userStates m2)"
      by (simp add: m2_def well_formed_store_filter)
    from saveUserStates_persisted [OF this] a show
      "fst (saveUserStates w m2) = Inr ()
        \<and> snd (saveUserStates w m2) = w\<lparr>userStatesFile := persisted (userStates m2)\<rparr>"
      by simp
  qed
  have gone: "Map_get (userStates m2) key = None"
    by (auto simp: m2_def Map_get_None)
  have "initialized m2"
    using initialize_initialized [OF init] by (simp add: m2_def)
  then have get: "getUserState stamp' userId guildId w' m2 = (Inr None, m2)" for w'
    by (simp add: getUserState_def initialize_again key_def [symmetric] gone)
  show ?thesis
    unfolding del prod.case key_def [symmetric] m2_def [symmetric]
    by (intro conjI refl same ok gone get)
qed

theorem deleteUserState_then_getUserState_witness:
  "initialize ''2024-01-02T01:00:00.000Z'' test_world test_manager = (Inr (), test_manager)
   \<and> well_formed_store (userStates test_manager) \<and> write_ok test_world
   \<and> Map_get (userStates test_manager) (getUserKey ''user9'' ''guild456'') = None
   \<and> deleteUserState ''2024-01-02T01:00:00.000Z'' ''user9'' ''guild456'' test_world test_manager
       = (Inr (), test_manager,
          test_world\<lparr>userStatesFile := Stored (userStates test_manager)\<rparr>)
   \<and> deleteUserState ''2024-01-02T01:00:00.000Z'' ''user2'' ''guild456'' test_world test_manager
       = (Inr (),
          \<lparr>userStates =
             [(''guild456-user1'', test_record ''user1'' False ''2024-01-01T00:00:00.000Z'' 0),
              (''guild456-user3'', test_record ''user3'' False ''2024-01-02T00:00:00.000Z'' 0),
              (''guild456-user4'', test_record ''user4'' False ''2024-01-01T00:00:00.000Z'' 3)],
           initialized = True\<rparr>,
          test_world\<lparr>userStatesFile := Stored
             [(''guild456-user1'', test_record ''user1'' False ''2024-01-01T00:00:00.000Z'' 0),
              (''guild456-user3'', test_record ''user3'' False ''2024-01-02T00:00:00.000Z'' 0),
              (''guild456-user4'', test_record ''user4'' False ''2024-01-01T00:00:00.000Z'' 3)]\<rparr>)
   \<and> getUserState ''2024-01-02T02:00:00.000Z'' ''user2'' ''guild456''
         (test_world\<lparr>userStatesFile := Stored
             [(''guild456-user1'', test_record ''user1'' False ''2024-01-01T00:00:00.000Z'' 0),
              (''guild456-user3'', test_record ''user3'' False ''2024-01-02T00:00:00.000Z'' 0),
              (''guild456-user4'', test_record ''user4'' False ''2024-01-01T00:00:00.000Z'' 3)]\<rparr>)
         \<lparr>userStates =
             [(''guild456-user1'', test_record ''user1'' False ''2024-01-01T00:00:00.000Z'' 0),
              (''guild456-user3'', test_record ''user3'' False ''2024-01-02T00:00:00.000Z'' 0),
              (''guild456-user4'', test_record ''user4'' False ''2024-01-01T00:00:00.000Z'' 3)],
           initialized = True\<rparr>
       = (Inr None,
          \<lparr>userStates =
             [(''guild456-user1'', test_record ''user1'' False ''2024-01-01T00:00:00.000Z'' 0),
              (''guild456-user3'', test_record ''user3'' False ''2024-01-02T00:00:00.000Z'' 0),
              (''guild456-user4'', test_record ''user4'' False ''2024-01-01T00:00:00.000Z'' 3)],
           initialized = True\<rparr>)"
proof -
  let ?rest = "[(''guild456-user1'', test_record ''user1'' False ''2024-01-01T00:00:00.000Z'' 0),
              (''guild456-user3'', test_record ''user3'' False ''2024-01-02T00:00:00.000Z'' 0),
              (''guild456-user4'', test_record ''user4'' False ''2024-01-01T00:00:00.000Z'' 3)]"
  have h1: "initialize ''2024-01-02T01:00:00.000Z'' test_world test_manager
            = (Inr (), test_manager)"
    by (simp add: initialize_def test_manager_def)
  have pl: "plain_names (test_record u a s n)" for u a s n
    by (simp add: plain_names_def hasOwnProperty_def test_record_def)
  have h2: "well_formed_store (userStates test_manager)"
    by (simp add: well_formed_store_def test_manager_def pl)
  have h3: "write_ok test_world"
    by (simp add: test_world_def)
  have h4: "Map_get (userStates test_manager) (getUserKey ''user9'' ''guild456'') = None"
    by (simp add: test_manager_def Map_get_def getUserKey_def)
  have js: "JSON_stringify (toJSON (test_record u a s n)) = test_record u a s n" for u a s n
    by (simp add: JSON_stringify_def toJSON_def test_record_def getProp_def)
  have f9: "filter (\<lambda>(k, state). k \<noteq> getUserKey ''user9'' ''guild456'') (userStates test_manager)
            = userStates test_manager"
    by (simp add: test_manager_def getUserKey_def)
  have f2: "filter (\<lambda>(k, state). k \<noteq> getUserKey ''user2'' ''guild456'') (userStates test_manager)
            = ?rest"
    by (simp add: test_manager_def getUserKey_def)
  have p9: "persisted (userStates test_manager) = Stored (userStates test_manager)"
    by (simp add: persisted_def test_manager_def js)
  have p2: "persisted ?rest = Stored ?rest"
    by (simp add: persisted_def js)
  have m: "test_manager\<lparr>userStates := ?rest\<rparr> = \<lparr>userStates = ?rest, initialized = True\<rparr>"
    by (simp add: test_manager_def)
  have a: "deleteUserState ''2024-01-02T01:00:00.000Z'' ''user9'' ''guild456'' test_world
             test_manager
       = (Inr (), test_manager, test_world\<lparr>userStatesFile := Stored (userStates test_manager)\<rparr>)"
    using deleteUserState_then_getUserState [OF h1, of "''user9''" "''guild456''"
        "''2024-01-02T02:00:00.000Z''"] h2 h3
    by (simp add: f9 p9 split: prod.splits)
  have b: "deleteUserState ''2024-01-02T01:00:00.000Z'' ''user2'' ''guild456'' test_world
             test_manager
       = (Inr (), \<lparr>userStates = ?rest, initialized = True\<rparr>,
          test_world\<lparr>userStatesFile := Stored ?rest\<rparr>)"
    using deleteUserState_then_getUserState [OF h1, of "''user2''" "''guild456''"
        "''2024-01-02T02:00:00.000Z''"] h2 h3
    by (simp add: f2 p2 m split: prod.splits)
  have c: "getUserState ''2024-01-02T02:00:00.000Z'' ''user2'' ''guild456''
         (test_world\<lparr>userStatesFile := Stored ?rest\<rparr>)
         \<lparr>userStates = ?rest, initialized = True\<rparr>
       = (Inr None, \<lparr>userStates = ?rest, initialized = True\<rparr>)"
    using deleteUserState_then_getUserState [OF h1, of "''user2''" "''guild456''"
        "''2024-01-02T02:00:00.000Z''"]
    by (simp add: b f2 m)
  show ?thesis
    by (intro conjI h1 h2 h3 h4 a b c)
qed

section \<open>Properties of serialisation\<close>

lemma toJSON_projection: "toJSON x = map (\<lambda>k. (k, getProp x k)) UserState_fields"
  by (simp add: toJSON_def UserState_fields_def)

lemma OnboardingConfig_toJSON_projection:
  "OnboardingConfig_toJSON c = map (\<lambda>k. (k, getProp c k)) OnboardingConfig_fields"
  by (simp add: OnboardingConfig_toJSON_def OnboardingConfig_fields_def)

lemma getProp_projection:
  "k \<in> set names \<Longrightarrow> getProp (map (\<lambda>k. (k, getProp x k)) names) k = getProp x k"
  by (simp add: getProp_def map_of_map_restrict)

lemma getProp_assign_present:
  assumes "distinct (map fst data)" and "k \<in> fst ` set data"
  shows "getProp (Object_assign target data) k = getProp data k"
proof -
  from assms(2) obtain v where v: "map_of data k = Some v"
    by (metis map_of_eq_None_iff not_Some_eq)
  have "getProp (Object_assign target data) k = v"
    by (simp add: getProp_Object_assign [OF assms(1)] v)
  moreover have "getProp data k = v"
    by (simp add: getProp_def v)
  ultimately show ?thesis
    by simp
qed

lemma distinct_fields:
  "distinct UserState_fields" "distinct OnboardingConfig_fields"
  by (simp_all add: UserState_fields_def OnboardingConfig_fields_def)

lemma roundtrip_projection:
  assumes "distinct names"
  shows "map (\<lambda>k. (k, getProp (Object_assign target (map (\<lambda>k. (k, getProp x k)) names)) k)) names
         = map (\<lambda>k. (k, getProp x k)) names"
proof (rule map_cong [OF refl])
  fix k assume k: "k \<in> set names"
  have d: "distinct (map fst (map (\<lambda>k. (k, getProp x k)) names))"
    using assms by (simp add: comp_def)
  have m: "k \<in> fst ` set (map (\<lambda>k. (k, getProp x k)) names)"
    using k by (simp add: image_iff)
  show "(k, getProp (Object_assign target (map (\<lambda>k. (k, getProp x k)) names)) k)
        = (k, getProp x k)"
    by (simp add: getProp_assign_present [OF d m] getProp_projection [OF k])
qed



lemma plain_names_toJSON: "plain_names (toJSON x)" "plain_names (OnboardingConfig_toJSON c)"
  by (simp_all add: plain_names_def hasOwnProperty_def toJSON_def OnboardingConfig_toJSON_def)

lemma getProp_assign_cases:
  "distinct (map fst data) \<Longrightarrow>
   getProp (Object_assign target data) k
   = (case map_of data k of Some v \<Rightarrow> v | None \<Rightarrow> getProp target k)"
  by (simp add: getProp_Object_assign split: option.splits)

text \<open>
  C5. For every record \<open>x\<close> with plain names, \<open>toJSON()\<close> produces
  exactly the eleven canonical UserState properties, in their fixed order, with the values
  of \<open>x\<close>, and nothing else (for OnboardingConfig: its nine). For well-formed data \<open>x\<close>,
  \<open>toJSON()\<close> after \<open>fromJSON\<close> produces the canonical properties again, each with the
  value that \<open>x\<close> holds for it (the constructor's value where \<open>x\<close> has none), so a
  property of \<open>x\<close> outside the canonical names is absent after one round trip; a serialised
  record is reproduced as it is.
\<close>

theorem serialize_roundtrip:
  "length UserState_fields = 11
   \<and> (plain_names x \<longrightarrow>
        call_toJSON x = Inr (map (\<lambda>k. (k, getProp x k)) UserState_fields))
   \<and> (well_formed_patch x \<longrightarrow>
        call_toJSON (fromJSON stamp x)
        = Inr (map (\<lambda>k. (k, case map_of x k of
                                  Some v \<Rightarrow> v
                                | None \<Rightarrow> getProp (UserState_new stamp (getProp x ''userId'')
                                                      (getProp x ''guildId'')) k))
                 UserState_fields))
   \<and> call_toJSON (fromJSON stamp (toJSON x)) = Inr (toJSON x)
   \<and> length OnboardingConfig_fields = 9
   \<and> (plain_names c \<longrightarrow>
        OnboardingConfig_call_toJSON c
        = Inr (map (\<lambda>k. (k, getProp c k)) OnboardingConfig_fields))
   \<and> (well_formed_patch c \<longrightarrow>
        OnboardingConfig_call_toJSON (OnboardingConfig_fromJSON c)
        = Inr (map (\<lambda>k. (k, case map_of c k of
                                  Some v \<Rightarrow> v
                                | None \<Rightarrow> getProp (OnboardingConfig_new (getProp c ''guildId'')) k))
                 OnboardingConfig_fields))
   \<and> OnboardingConfig_call_toJSON (OnboardingConfig_fromJSON (OnboardingConfig_toJSON c))
       = Inr (OnboardingConfig_toJSON c)"
proof -
  have u1: "length UserState_fields = 11"
    by (simp add: UserState_fields_def)
  have u2: "plain_names x \<longrightarrow>
        call_toJSON x = Inr (map (\<lambda>k. (k, getProp x k)) UserState_fields)"
    by (simp add: call_toJSON_def toJSON_projection plain_names_def)
  have u3: "well_formed_patch x \<longrightarrow>
        call_toJSON (fromJSON stamp x)
        = Inr (map (\<lambda>k. (k, case map_of x k of
                                  Some v \<Rightarrow> v
                                | None \<Rightarrow> getProp (UserState_new stamp (getProp x ''userId'')
                                                      (getProp x ''guildId'')) k))
                 UserState_fields)"
  proof
    assume wf: "well_formed_patch x"
    then have d: "distinct (map fst x)" and pl: "plain_names x"
      by (simp_all add: well_formed_patch_def)
    have "plain_names (fromJSON stamp x)"
      unfolding fromJSON_def
      by (rule plain_names_Object_assign [OF plain_names_UserState_new pl])
    then have "call_toJSON (fromJSON stamp x) = Inr (toJSON (fromJSON stamp x))"
      by (rule call_toJSON_plain)
    also have "toJSON (fromJSON stamp x)
        = map (\<lambda>k. (k, case map_of x k of
                                  Some v \<Rightarrow> v
                                | None \<Rightarrow> getProp (UserState_new stamp (getProp x ''userId'')
                                                      (getProp x ''guildId'')) k))
                 UserState_fields"
      by (simp add: toJSON_projection fromJSON_def getProp_assign_cases [OF d])
    finally show "call_toJSON (fromJSON stamp x)
        = Inr (map (\<lambda>k. (k, case map_of x k of
                                  Some v \<Rightarrow> v
                                | None \<Rightarrow> getProp (UserState_new stamp (getProp x ''userId'')
                                                      (getProp x ''guildId'')) k))
                 UserState_fields)" .
  qed
  have "plain_names (fromJSON stamp (toJSON x))"
    unfolding fromJSON_def
    by (rule plain_names_Object_assign [OF plain_names_UserState_new plain_names_toJSON(1)])
  then have "call_toJSON (fromJSON stamp (toJSON x)) = Inr (toJSON (fromJSON stamp (toJSON x)))"
    by (rule call_toJSON_plain)
  moreover have "toJSON (fromJSON stamp (toJSON x)) = toJSON x"
    unfolding fromJSON_def toJSON_projection [of "Object_assign _ _"]
    unfolding toJSON_projection [of x]
    by (rule roundtrip_projection [OF distinct_fields(1)])
  ultimately have u4: "call_toJSON (fromJSON stamp (toJSON x)) = Inr (toJSON x)"
    by simp
  have c1: "length OnboardingConfig_fields = 9"
    by (simp add: OnboardingConfig_fields_def)
  have c2: "plain_names c \<longrightarrow>
        OnboardingConfig_call_toJSON c
        = Inr (map (\<lambda>k. (k, getProp c k)) OnboardingConfig_fields)"
    by (simp add: OnboardingConfig_call_toJSON_def OnboardingConfig_toJSON_projection
          plain_names_def)
  have c3: "well_formed_patch c \<longrightarrow>
        OnboardingConfig_call_toJSON (OnboardingConfig_fromJSON c)
        = Inr (map (\<lambda>k. (k, case map_of c k of
                                  Some v \<Rightarrow> v
                                | None \<Rightarrow> getProp (OnboardingConfig_new (getProp c ''guildId'')) k))
                 OnboardingConfig_fields)"
  proof
    assume wf: "well_formed_patch c"
    then have d: "distinct (map fst c)" and pl: "plain_names c"
      by (simp_all add: well_formed_patch_def)
    have "plain_names (OnboardingConfig_fromJSON c)"
      unfolding OnboardingConfig_fromJSON_def
      by (rule plain_names_Object_assign [OF plain_names_OnboardingConfig_new pl])
    then have "OnboardingConfig_call_toJSON (OnboardingConfig_fromJSON c)
               = Inr (OnboardingConfig_toJSON (OnboardingConfig_fromJSON c))"
      by (simp add: OnboardingConfig_call_toJSON_def plain_names_def)
    also have "OnboardingConfig_toJSON (OnboardingConfig_fromJSON c)
        = map (\<lambda>k. (k, case map_of c k of
                                  Some v \<Rightarrow> v
                                | None \<Rightarrow> getProp (OnboardingConfig_new (getProp c ''guildId'')) k))
                 OnboardingConfig_fields"
      by (simp add: OnboardingConfig_toJSON_projection OnboardingConfig_fromJSON_def
            getProp_assign_cases [OF d])
    finally show "OnboardingConfig_call_toJSON (OnboardingConfig_fromJSON c)
        = Inr (map (\<lambda>k. (k, case map_of c k of
                                  Some v \<Rightarrow> v
                                | None \<Rightarrow> getProp (OnboardingConfig_new (getProp c ''guildId'')) k))
                 OnboardingConfig_fields)" .
  qed
  have "plain_names (OnboardingConfig_fromJSON (OnboardingConfig_toJSON c))"
    unfolding OnboardingConfig_fromJSON_def
    by (rule plain_names_Object_assign [OF plain_names_OnboardingConfig_new plain_names_toJSON(2)])
  then have "OnboardingConfig_call_toJSON (OnboardingConfig_fromJSON (OnboardingConfig_toJSON c))
             = Inr (OnboardingConfig_toJSON (OnboardingConfig_fromJSON (OnboardingConfig_toJSON c)))"
    by (simp add: OnboardingConfig_call_toJSON_def plain_names_def)
  moreover have "OnboardingConfig_toJSON (OnboardingConfig_fromJSON (OnboardingConfig_toJSON c))
                 = OnboardingConfig_toJSON c"
    unfolding OnboardingConfig_fromJSON_def OnboardingConfig_toJSON_projection [of "Object_assign _ _"]
    unfolding OnboardingConfig_toJSON_projection [of c]
    by (rule roundtrip_projection [OF distinct_fields(2)])
  ultimately have c4:
    "OnboardingConfig_call_toJSON (OnboardingConfig_fromJSON (OnboardingConfig_toJSON c))
     = Inr (OnboardingConfig_toJSON c)"
    by simp
  show ?thesis
    by (intro conjI u1 u2 u3 u4 c1 c2 c3 c4)
qed

theorem serialize_roundtrip_witness:
  "plain_names test_data
   \<and> well_formed_patch test_data
   \<and> call_toJSON (fromJSON ''2024-01-02T01:00:00.000Z'' test_data) = Inr (butlast test_data)
   \<and> last test_data = (''nickname'', JStr ''neo'')
   \<and> plain_names
         [(''guildId'', JStr ''guild456''), (''maxReminders'', JNum 5), (''theme'', JStr ''dark'')]
   \<and> well_formed_patch
         [(''guildId'', JStr ''guild456''), (''maxReminders'', JNum 5), (''theme'', JStr ''dark'')]
   \<and> OnboardingConfig_call_toJSON (OnboardingConfig_fromJSON
         [(''guildId'', JStr ''guild456''), (''maxReminders'', JNum 5), (''theme'', JStr ''dark'')])
       = Inr [(''guildId'', JStr ''guild456''),
              (''welcomeChannelId'', JNull),
              (''rulesChannelId'', JNull),
              (''welcomeMessage'', JStr getDefaultWelcomeMessage),
              (''rulesContent'', JStr getDefaultRulesContent),
              (''githubIntegrationEnabled'', JBool True),
              (''tutorialEnabled'', JBool True),
              (''reminderIntervalHours'', JNum 24),
              (''maxReminders'', JNum 5)]"
proof -
  let ?c = "[(''guildId'', JStr ''guild456''), (''maxReminders'', JNum 5),
             (''theme'', JStr ''dark'')]"
  have h1: "plain_names test_data"
    by (simp add: plain_names_def hasOwnProperty_def test_data_def)
  have h2: "well_formed_patch test_data"
    by (simp add: well_formed_patch_def plain_names_def hasOwnProperty_def test_data_def)
  have h3: "plain_names ?c"
    by (simp add: plain_names_def hasOwnProperty_def)
  have h4: "well_formed_patch ?c"
    by (simp add: well_formed_patch_def plain_names_def hasOwnProperty_def)
  note T = serialize_roundtrip [of test_data "''2024-01-02T01:00:00.000Z''" ?c]
  have a: "call_toJSON (fromJSON ''2024-01-02T01:00:00.000Z'' test_data) = Inr (butlast test_data)"
    using T [THEN conjunct2, THEN conjunct2, THEN conjunct1, rule_format, OF h2]
    by (simp add: UserState_fields_def test_data_def)
  have l: "last test_data = (''nickname'', JStr ''neo'')"
    by (simp add: test_data_def)
  have b: "OnboardingConfig_call_toJSON (OnboardingConfig_fromJSON ?c)
       = Inr [(''guildId'', JStr ''guild456''),
              (''welcomeChannelId'', JNull),
              (''rulesChannelId'', JNull),
              (''welcomeMessage'', JStr getDefaultWelcomeMessage),
              (''rulesContent'', JStr getDefaultRulesContent),
              (''githubIntegrationEnabled'', JBool True),
              (''tutorialEnabled'', JBool True),
              (''reminderIntervalHours'', JNum 24),
              (''maxReminders'', JNum 5)]"
    using T [THEN conjunct2, THEN conjunct2, THEN conjunct2, THEN conjunct2, THEN conjunct2,
        THEN conjunct2, THEN conjunct1, rule_format, OF h4]
    by (simp add: OnboardingConfig_fields_def OnboardingConfig_new_def getProp_def)
  show ?thesis
    by (intro conjI h1 h2 h3 h4 a l b)
qed

text \<open>
  C5, where the claim fails. The serialised form of a UserState has eleven properties,
  not ten: the constructor's record serialises to the eleven names below. And for data with
  a property \<open>toJSON\<close> the round trip raises a \<^verbatim>\<open>TypeError\<close> instead of dropping the
  property.
\<close>

theorem toJSON_ten_fields_counterexample:
  "call_toJSON (UserState_new ''2024-01-01T00:00:00.000Z'' (JStr ''user123'') (JStr ''guild456''))
     = Inr [(''userId'', JStr ''user123''),
            (''guildId'', JStr ''guild456''),
            (''onboardingStep'', JStr ''welcome''),
            (''rulesAcknowledged'', JBool False),
            (''rulesAcknowledgedAt'', JNull),
            (''githubConnected'', JBool False),
            (''githubUsername'', JNull),
            (''tutorialCompleted'', JBool False),
            (''onboardingStartedAt'', JStr ''2024-01-01T00:00:00.000Z''),
            (''onboardingCompletedAt'', JNull),
            (''remindersSent'', JNum 0)]
   \<and> length (toJSON (UserState_new ''2024-01-01T00:00:00.000Z'' (JStr ''user123'')
         (JStr ''guild456''))) = 11
   \<and> length (toJSON (UserState_new ''2024-01-01T00:00:00.000Z'' (JStr ''user123'')
         (JStr ''guild456''))) \<noteq> 10
   \<and> call_toJSON (fromJSON ''2024-01-01T00:00:00.000Z''
         [(''userId'', JStr ''user123''), (''guildId'', JStr ''guild456''),
          (''toJSON'', JStr ''x'')])
       = Inl TypeError"
  by (simp add: call_toJSON_def hasOwnProperty_def toJSON_def UserState_new_def getProp_def
        fromJSON_def Object_assign_def setProp_def)

section \<open>Properties of OnboardingConfig\<close>

lemma trimStart_keep:
  "\<not> ws1 a \<Longrightarrow> \<not> ws2 a b \<Longrightarrow> \<not> ws3 a b c \<Longrightarrow> trimStart (a # b # c # s) = a # b # c # s"
  by simp

lemma trimEndRev_keep:
  assumes "\<not> ws1 c" and "\<And>b. \<not> ws2 b c" and "\<And>a b. \<not> ws3 a b c"
  shows "trimEndRev (c # t) = c # t"
proof (cases t)
  case Nil
  then show ?thesis using assms by simp
next
  case (Cons b t')
  then show ?thesis using assms by (cases t') simp_all
qed

lemma trimEnd_keep:
  assumes "s \<noteq> []" and "\<not> ws1 (last s)" and "\<And>b. \<not> ws2 b (last s)"
    and "\<And>a b. \<not> ws3 a b (last s)"
  shows "trimEnd s = s"
proof -
  have "rev s = rev (butlast s @ [last s])"
    by (simp only: append_butlast_last_id [OF assms(1)])
  also have "\<dots> = last s # rev (butlast s)"
    by (simp only: rev_append rev.simps append_Nil append_Cons)
  finally have r: "rev s = last s # rev (butlast s)" .
  have "trimEndRev (rev s) = rev s"
    unfolding r by (rule trimEndRev_keep [OF assms(2-4)])
  then show ?thesis
    by (simp add: trimEnd_def)
qed

lemma trim_getDefaultWelcomeMessage:
  "trim getDefaultWelcomeMessage = getDefaultWelcomeMessage \<and> getDefaultWelcomeMessage \<noteq> []"
proof -
  have "\<exists>s. getDefaultWelcomeMessage = CHR 0xC2 # CHR 0xA1 # CHR ''B'' # s"
    unfolding getDefaultWelcomeMessage_def
    by (simp only: append_Cons append_Nil) (rule exI, rule refl)
  then obtain s where s: "getDefaultWelcomeMessage = CHR 0xC2 # CHR 0xA1 # CHR ''B'' # s" ..
  have start: "trimStart getDefaultWelcomeMessage = getDefaultWelcomeMessage"
    unfolding s by (rule trimStart_keep) (simp_all add: ws1_def ws2_def ws3_def)
  have l: "last getDefaultWelcomeMessage = CHR ''!''"
    unfolding getDefaultWelcomeMessage_def
    by (simp only: last_appendR last_snoc append_is_Nil_conv list.simps simp_thms last.simps
          if_True if_False)
  have n: "getDefaultWelcomeMessage \<noteq> []"
    by (simp add: s)
  have "trimEnd getDefaultWelcomeMessage = getDefaultWelcomeMessage"
    by (rule trimEnd_keep [OF n]) (simp_all add: l ws1_def ws2_def ws3_def)
  then show ?thesis
    using n by (simp add: trim_def start)
qed

lemma trim_getDefaultRulesContent:
  "trim getDefaultRulesContent = getDefaultRulesContent \<and> getDefaultRulesContent \<noteq> []"
proof -
  have "\<exists>s. getDefaultRulesContent = CHR 0xF0 # CHR 0x9F # CHR 0x93 # s"
    unfolding getDefaultRulesContent_def
    by (simp only: append_Cons append_Nil) (rule exI, rule refl)
  then obtain s where s: "getDefaultRulesContent = CHR 0xF0 # CHR 0x9F # CHR 0x93 # s" ..
  have start: "trimStart getDefaultRulesContent = getDefaultRulesContent"
    unfolding s by (rule trimStart_keep) (simp_all add: ws1_def ws2_def ws3_def)
  have l: "last getDefaultRulesContent = CHR ''.''"
    unfolding getDefaultRulesContent_def
    by (simp only: last_appendR last_snoc append_is_Nil_conv list.simps simp_thms last.simps
          if_True if_False)
  have n: "getDefaultRulesContent \<noteq> []"
    by (simp add: s)
  have "trimEnd getDefaultRulesContent = getDefaultRulesContent"
    by (rule trimEnd_keep [OF n]) (simp_all add: l ws1_def ws2_def ws3_def)
  then show ?thesis
    using n by (simp add: trim_def start)
qed

lemma default_messages_nonblank:
  "trim getDefaultWelcomeMessage \<noteq> []" "trim getDefaultRulesContent \<noteq> []"
  using trim_getDefaultWelcomeMessage trim_getDefaultRulesContent by simp_all


lemma blank_JStr: "blank (JStr s) = Inr (trim s = [])"
  by (simp add: blank_def trim_def trimEnd_def)

lemma validate_typed:
  assumes "getProp c ''reminderIntervalHours'' = JNum h"
    and "getProp c ''maxReminders'' = JNum n"
    and "getProp c ''welcomeMessage'' = JStr wm"
    and "getProp c ''rulesContent'' = JStr rc"
  shows "validate pf c
         = Inr \<lparr>isValid = (spec_errors (getProp c ''guildId'') h n wm rc = []),
                errors = spec_errors (getProp c ''guildId'') h n wm rc\<rparr>"
  unfolding validate_def Let_def assms blank_JStr spec_errors_def
    msg_guildId_def msg_reminderIntervalHours_def msg_maxReminders_def
    msg_welcomeMessage_def msg_rulesContent_def
  by (simp add: js_less_def not_less)


lemma OnboardingConfig_new_props:
  "getProp (OnboardingConfig_new g) ''guildId'' = g"
  "getProp (OnboardingConfig_new g) ''reminderIntervalHours'' = JNum 24"
  "getProp (OnboardingConfig_new g) ''maxReminders'' = JNum 3"
  "getProp (OnboardingConfig_new g) ''welcomeMessage'' = JStr getDefaultWelcomeMessage"
  "getProp (OnboardingConfig_new g) ''rulesContent'' = JStr getDefaultRulesContent"
  by (simp_all add: OnboardingConfig_new_def getProp_def)

lemma trim_blank_examples: "trim [] = []" "trim ''   '' = []"
  by (simp_all add: trim_def trimEnd_def ws1_def)

lemma validate_default:
  assumes "ToBoolean g"
  shows "validate pf (OnboardingConfig_new g) = Inr \<lparr>isValid = True, errors = []\<rparr>"
  using assms
  by (simp add: validate_typed [OF OnboardingConfig_new_props(2-5)] OnboardingConfig_new_props(1)
        spec_errors_def default_messages_nonblank)

lemma validate_one_violation:
  assumes "ToBoolean g"
  shows "validate pf (setProp ''reminderIntervalHours'' (JNum 0) (OnboardingConfig_new g))
           = Inr \<lparr>isValid = False, errors = [msg_reminderIntervalHours]\<rparr>"
    and "validate pf (setProp ''reminderIntervalHours'' (JNum 200) (OnboardingConfig_new g))
           = Inr \<lparr>isValid = False, errors = [msg_reminderIntervalHours]\<rparr>"
    and "validate pf (setProp ''maxReminders'' (JNum (- 1)) (OnboardingConfig_new g))
           = Inr \<lparr>isValid = False, errors = [msg_maxReminders]\<rparr>"
    and "validate pf (setProp ''maxReminders'' (JNum 11) (OnboardingConfig_new g))
           = Inr \<lparr>isValid = False, errors = [msg_maxReminders]\<rparr>"
    and "validate pf (setProp ''welcomeMessage'' (JStr []) (OnboardingConfig_new g))
           = Inr \<lparr>isValid = False, errors = [msg_welcomeMessage]\<rparr>"
    and "validate pf (setProp ''welcomeMessage'' (JStr ''   '') (OnboardingConfig_new g))
           = Inr \<lparr>isValid = False, errors = [msg_welcomeMessage]\<rparr>"
    and "validate pf (setProp ''rulesContent'' (JStr []) (OnboardingConfig_new g))
           = Inr \<lparr>isValid = False, errors = [msg_rulesContent]\<rparr>"
    and "validate pf (setProp ''rulesContent'' (JStr ''   '') (OnboardingConfig_new g))
           = Inr \<lparr>isValid = False, errors = [msg_rulesContent]\<rparr>"
proof -
  note p = OnboardingConfig_new_props
  note e = spec_errors_def default_messages_nonblank trim_blank_examples getProp_setProp p assms
  show "validate pf (setProp ''reminderIntervalHours'' (JNum 0) (OnboardingConfig_new g))
           = Inr \<lparr>isValid = False, errors = [msg_reminderIntervalHours]\<rparr>"
    by (subst validate_typed [where h = 0 and n = 3 and wm = getDefaultWelcomeMessage
          and rc = getDefaultRulesContent]) (simp_all add: e)
  show "validate pf (setProp ''reminderIntervalHours'' (JNum 200) (OnboardingConfig_new g))
           = Inr \<lparr>isValid = False, errors = [msg_reminderIntervalHours]\<rparr>"
    by (subst validate_typed [where h = 200 and n = 3 and wm = getDefaultWelcomeMessage
          and rc = getDefaultRulesContent]) (simp_all add: e)
  show "validate pf (setProp ''maxReminders'' (JNum (- 1)) (OnboardingConfig_new g))
           = Inr \<lparr>isValid = False, errors = [msg_maxReminders]\<rparr>"
    by (subst validate_typed [where h = 24 and n = "- 1" and wm = getDefaultWelcomeMessage
          and rc = getDefaultRulesContent]) (simp_all add: e)
  show "validate pf (setProp ''maxReminders'' (JNum 11) (OnboardingConfig_new g))
           = Inr \<lparr>isValid = False, errors = [msg_maxReminders]\<rparr>"
    by (subst validate_typed [where h = 24 and n = 11 and wm = getDefaultWelcomeMessage
          and rc = getDefaultRulesContent]) (simp_all add: e)
  show "validate pf (setProp ''welcomeMessage'' (JStr []) (OnboardingConfig_new g))
           = Inr \<lparr>isValid = False, errors = [msg_welcomeMessage]\<rparr>"
    by (subst validate_typed [where h = 24 and n = 3 and wm = "[]"
          and rc = getDefaultRulesContent]) (simp_all add: e)
  show "validate pf (setProp ''welcomeMessage'' (JStr ''   '') (OnboardingConfig_new g))
           = Inr \<lparr>isValid = False, errors = [msg_welcomeMessage]\<rparr>"
    by (subst validate_typed [where h = 24 and n = 3 and wm = "''   ''"
          and rc = getDefaultRulesContent]) (simp_all add: e)
  show "validate pf (setProp ''rulesContent'' (JStr []) (OnboardingConfig_new g))
           = Inr \<lparr>isValid = False, errors = [msg_rulesContent]\<rparr>"
    by (subst validate_typed [where h = 24 and n = 3 and wm = getDefaultWelcomeMessage
          and rc = "[]"]) (simp_all add: e)
  show "validate pf (setProp ''rulesContent'' (JStr ''   '') (OnboardingConfig_new g))
           = Inr \<lparr>isValid = False, errors = [msg_rulesContent]\<rparr>"
    by (subst validate_typed [where h = 24 and n = 3 and wm = getDefaultWelcomeMessage
          and rc = "''   ''"]) (simp_all add: e)
qed

lemma validate_all_violations:
  "validate pf
     (setProp ''rulesContent'' (JStr ''   '')
       (setProp ''welcomeMessage'' (JStr [])
         (setProp ''maxReminders'' (JNum 11)
           (setProp ''reminderIntervalHours'' (JNum 0) (OnboardingConfig_new JNull)))))
   = Inr \<lparr>isValid = False,
          errors = [msg_guildId, msg_reminderIntervalHours, msg_maxReminders,
                    msg_welcomeMessage, msg_rulesContent]\<rparr>"
  by (subst validate_typed [where h = 0 and n = 11 and wm = "[]" and rc = "''   ''"])
     (simp_all add: spec_errors_def trim_blank_examples getProp_setProp
        OnboardingConfig_new_props)

text \<open>
  C6. \<open>validate\<close> returns a result with \<open>isValid\<close> and \<open>errors\<close>, where \<open>errors\<close> holds one
  message for each violated rule, all of them, in the order guild id present, interval
  within 1 to 168, maximum within 0 to 10, welcome text not blank after trimming, rules text
  not blank after trimming, and \<open>isValid\<close> says that there is none (for a configuration
  whose interval and maximum are numbers and whose two texts are strings). The
  configuration that the constructor makes for a guild id is valid with no errors; setting
  the interval to 0 or 200, the maximum to -1 or 11, or either text to an empty or
  all-space string makes it invalid with exactly the message of that rule; violating all
  five rules gives all five messages.
\<close>

theorem validate_collects_all:
  assumes "getProp c ''reminderIntervalHours'' = JNum h"
    and "getProp c ''maxReminders'' = JNum n"
    and "getProp c ''welcomeMessage'' = JStr wm"
    and "getProp c ''rulesContent'' = JStr rc"
  shows "validate pf c
           = Inr \<lparr>isValid = (spec_errors (getProp c ''guildId'') h n wm rc = []),
                  errors = spec_errors (getProp c ''guildId'') h n wm rc\<rparr>
       \<and> (ToBoolean g \<longrightarrow>
            validate pf (OnboardingConfig_new g) = Inr \<lparr>isValid = True, errors = []\<rparr>
          \<and> validate pf (setProp ''reminderIntervalHours'' (JNum 0) (OnboardingConfig_new g))
              = Inr \<lparr>isValid = False, errors = [msg_reminderIntervalHours]\<rparr>
          \<and> validate pf (setProp ''reminderIntervalHours'' (JNum 200) (OnboardingConfig_new g))
              = Inr \<lparr>isValid = False, errors = [msg_reminderIntervalHours]\<rparr>
          \<and> validate pf (setProp ''maxReminders'' (JNum (- 1)) (OnboardingConfig_new g))
              = Inr \<lparr>isValid = False, errors = [msg_maxReminders]\<rparr>
          \<and> validate pf (setProp ''maxReminders'' (JNum 11) (OnboardingConfig_new g))
              = Inr \<lparr>isValid = False, errors = [msg_maxReminders]\<rparr>
          \<and> validate pf (setProp ''welcomeMessage'' (JStr []) (OnboardingConfig_new g))
              = Inr \<lparr>isValid = False, errors = [msg_welcomeMessage]\<rparr>
          \<and> validate pf (setProp ''welcomeMessage'' (JStr ''   '') (OnboardingConfig_new g))
              = Inr \<lparr>isValid = False, errors = [msg_welcomeMessage]\<rparr>
          \<and> validate pf (setProp ''rulesContent'' (JStr []) (OnboardingConfig_new g))
              = Inr \<lparr>isValid = False, errors = [msg_rulesContent]\<rparr>
          \<and> validate pf (setProp ''rulesContent'' (JStr ''   '') (OnboardingConfig_new g))
              = Inr \<lparr>isValid = False, errors = [msg_rulesContent]\<rparr>)
       \<and> validate pf
            (setProp ''rulesContent'' (JStr ''   '')
              (setProp ''welcomeMessage'' (JStr [])
                (setProp ''maxReminders'' (JNum 11)
                  (setProp ''reminderIntervalHours'' (JNum 0) (OnboardingConfig_new JNull)))))
           = Inr \<lparr>isValid = False,
                  errors = [msg_guildId, msg_reminderIntervalHours, msg_maxReminders,
                            msg_welcomeMessage, msg_rulesContent]\<rparr>"
proof (intro conjI impI)
  show "validate pf c
           = Inr \<lparr>isValid = (spec_errors (getProp c ''guildId'') h n wm rc = []),
                  errors = spec_errors (getProp c ''guildId'') h n wm rc\<rparr>"
    by (rule validate_typed [OF assms])
qed (simp_all only: validate_default validate_one_violation validate_all_violations)

theorem validate_collects_all_witness:
  "getProp (setProp ''maxReminders'' (JNum 11)
       (setProp ''reminderIntervalHours'' (JNum 0) (OnboardingConfig_new (JStr ''guild123''))))
     ''reminderIntervalHours'' = JNum 0
   \<and> getProp (setProp ''maxReminders'' (JNum 11)
       (setProp ''reminderIntervalHours'' (JNum 0) (OnboardingConfig_new (JStr ''guild123''))))
     ''maxReminders'' = JNum 11
   \<and> getProp (setProp ''maxReminders'' (JNum 11)
       (setProp ''reminderIntervalHours'' (JNum 0) (OnboardingConfig_new (JStr ''guild123''))))
     ''welcomeMessage'' = JStr getDefaultWelcomeMessage
   \<and> getProp (setProp ''maxReminders'' (JNum 11)
       (setProp ''reminderIntervalHours'' (JNum 0) (OnboardingConfig_new (JStr ''guild123''))))
     ''rulesContent'' = JStr getDefaultRulesContent
   \<and> ToBoolean (JStr ''guild123'')
   \<and> validate test_platform (setProp ''maxReminders'' (JNum 11)
       (setProp ''reminderIntervalHours'' (JNum 0) (OnboardingConfig_new (JStr ''guild123''))))
       = Inr \<lparr>isValid = False, errors = [msg_reminderIntervalHours, msg_maxReminders]\<rparr>
   \<and> validate test_platform (OnboardingConfig_new (JStr ''guild123''))
       = Inr \<lparr>isValid = True, errors = []\<rparr>"
proof -
  let ?c = "setProp ''maxReminders'' (JNum 11)
       (setProp ''reminderIntervalHours'' (JNum 0) (OnboardingConfig_new (JStr ''guild123'')))"
  have h1: "getProp ?c ''reminderIntervalHours'' = JNum 0"
    and h2: "getProp ?c ''maxReminders'' = JNum 11"
    and h3: "getProp ?c ''welcomeMessage'' = JStr getDefaultWelcomeMessage"
    and h4: "getProp ?c ''rulesContent'' = JStr getDefaultRulesContent"
    and g: "getProp ?c ''guildId'' = JStr ''guild123''"
    by (simp_all add: getProp_setProp OnboardingConfig_new_props)
  have h5: "ToBoolean (JStr ''guild123'')"
    by simp
  note T = validate_collects_all [OF h1 h2 h3 h4, of test_platform "JStr ''guild123''"]
  have e: "spec_errors (JStr ''guild123'') 0 11 getDefaultWelcomeMessage getDefaultRulesContent
           = [msg_reminderIntervalHours, msg_maxReminders]"
    by (simp add: spec_errors_def default_messages_nonblank)
  have a: "validate test_platform ?c
           = Inr \<lparr>isValid = False, errors = [msg_reminderIntervalHours, msg_maxReminders]\<rparr>"
    using T [THEN conjunct1] by (simp add: g e)
  have b: "validate test_platform (OnboardingConfig_new (JStr ''guild123''))
           = Inr \<lparr>isValid = True, errors = []\<rparr>"
    using T [THEN conjunct2, THEN conjunct1, rule_format, OF h5, THEN conjunct1] .
  show ?thesis
    by (intro conjI h1 h2 h3 h4 h5 a b)
qed

end
